theory Spec2Isabelle
  imports Complex_Main
begin

section \<open>Python strings\<close>

text \<open>
  A Python \<open>str\<close> is modelled as a \<open>string\<close>, one \<open>char\<close> per code point. The
  character classes below are Python's on the ASCII range (\<open>str.isspace\<close>,
  \<open>str.isalpha\<close>, \<open>str.lower\<close>, the regular-expression classes \<open>\d\<close>, \<open>\s\<close>
  and \<open>\w\<close>); code points beyond ASCII are outside the scope of these functions and are
  treated there as caseless symbols. The one function that is also studied on text beyond
  ASCII, \<open>normalize_category\<close>, has a second embedding on lists of code points further
  down.
\<close>

definition is_digit :: "char \<Rightarrow> bool" where
  "is_digit c = (c \<in> set ''0123456789'')"

definition is_upper :: "char \<Rightarrow> bool" where
  "is_upper c = (c \<in> set ''ABCDEFGHIJKLMNOPQRSTUVWXYZ'')"

definition is_lower :: "char \<Rightarrow> bool" where
  "is_lower c = (c \<in> set ''abcdefghijklmnopqrstuvwxyz'')"

definition is_alpha :: "char \<Rightarrow> bool" where
  "is_alpha c = (is_upper c \<or> is_lower c)"

definition is_alnum :: "char \<Rightarrow> bool" where
  "is_alnum c = (is_alpha c \<or> is_digit c)"

text \<open>\<open>str.isspace\<close> and \<open>\s\<close>: tab, line feed, vertical tab, form feed, carriage
  return, the four separators 0x1C to 0x1F, and the space.\<close>

definition is_space :: "char \<Rightarrow> bool" where
  "is_space c = (c \<in> set [CHR 0x09, CHR 0x0A, CHR 0x0B, CHR 0x0C, CHR 0x0D,
                            CHR 0x1C, CHR 0x1D, CHR 0x1E, CHR 0x1F, CHR 0x20])"

text \<open>\<open>\w\<close>: alphanumeric or underscore.\<close>

definition is_word :: "char \<Rightarrow> bool" where
  "is_word c = (is_alnum c \<or> c = CHR ''_'')"

definition lower_char :: "char \<Rightarrow> char" where
  "lower_char c = (case map_of (zip ''ABCDEFGHIJKLMNOPQRSTUVWXYZ'' ''abcdefghijklmnopqrstuvwxyz'') c of
                     Some d \<Rightarrow> d | None \<Rightarrow> c)"

definition upper_char :: "char \<Rightarrow> char" where
  "upper_char c = (case map_of (zip ''abcdefghijklmnopqrstuvwxyz'' ''ABCDEFGHIJKLMNOPQRSTUVWXYZ'') c of
                     Some d \<Rightarrow> d | None \<Rightarrow> c)"

definition lower :: "string \<Rightarrow> string" where
  "lower s = map lower_char s"

definition upper :: "string \<Rightarrow> string" where
  "upper s = map upper_char s"

text \<open>\<open>s.strip()\<close> removes white space at both ends; \<open>s.strip(chars)\<close> removes the
  characters of \<open>chars\<close>.\<close>

definition strip_with :: "(char \<Rightarrow> bool) \<Rightarrow> string \<Rightarrow> string" where
  "strip_with P s = rev (dropWhile P (rev (dropWhile P s)))"

definition strip :: "string \<Rightarrow> string" where
  "strip s = strip_with is_space s"

definition strip_chars :: "string \<Rightarrow> string \<Rightarrow> string" where
  "strip_chars chars s = strip_with (\<lambda>c. c \<in> set chars) s"

definition starts_with :: "string \<Rightarrow> string \<Rightarrow> bool" where
  "starts_with s p = (take (length p) s = p)"

definition ends_with :: "string \<Rightarrow> string \<Rightarrow> bool" where
  "ends_with s p = (length p \<le> length s \<and> drop (length s - length p) s = p)"

text \<open>\<open>p in s\<close>.\<close>

fun contains :: "string \<Rightarrow> string \<Rightarrow> bool" where
  "contains [] p = (p = [])"
| "contains (c # cs) p = (starts_with (c # cs) p \<or> contains cs p)"

text \<open>\<open>s.find(p)\<close> for a \<open>p\<close> that occurs in \<open>s\<close>: the index of the first occurrence
  (the length of \<open>s\<close> when there is none; the source calls it only after \<open>p in s\<close>).\<close>

fun find_index :: "string \<Rightarrow> string \<Rightarrow> nat" where
  "find_index [] p = 0"
| "find_index (c # cs) p = (if starts_with (c # cs) p then 0 else Suc (find_index cs p))"

text \<open>\<open>s.replace(old, new)\<close>, left to right, without overlaps; \<open>old\<close> is never empty
  in the source.\<close>

function replace :: "string \<Rightarrow> string \<Rightarrow> string \<Rightarrow> string" where
  "replace old new [] = []"
| "replace old new (c # cs) =
     (if old \<noteq> [] \<and> starts_with (c # cs) old
      then new @ replace old new (drop (length old) (c # cs))
      else c # replace old new cs)"
  by pat_completeness auto
termination
  by (relation "measure (\<lambda>(old, new, s). length s)") (auto simp: neq_Nil_conv)

text \<open>\<open>s.split(sep)\<close> for a one-character separator.\<close>

fun split_on :: "char \<Rightarrow> string \<Rightarrow> string list" where
  "split_on d [] = [[]]"
| "split_on d (c # cs) =
     (if c = d then [] # split_on d cs
      else (case split_on d cs of [] \<Rightarrow> [[c]] | g # gs \<Rightarrow> (c # g) # gs))"

text \<open>\<open>sep.join(parts)\<close>.\<close>

fun join :: "string \<Rightarrow> string list \<Rightarrow> string" where
  "join sep [] = []"
| "join sep [x] = x"
| "join sep (x # y # ys) = x @ sep @ join sep (y # ys)"

text \<open>\<open>int(digits)\<close> on a string of decimal digits.\<close>

definition digit_val :: "char \<Rightarrow> int" where
  "digit_val c = (case map_of (zip ''0123456789'' [0, 1, 2, 3, 4, 5, 6, 7, 8, 9]) c of
                    Some d \<Rightarrow> d | None \<Rightarrow> 0)"

definition int_of_digits :: "string \<Rightarrow> int" where
  "int_of_digits ds = foldl (\<lambda>acc c. 10 * acc + digit_val c) 0 ds"

section \<open>Python floats\<close>

text \<open>
  A Python \<open>float\<close> is an IEEE 754 binary64 number. The finite values are modelled by
  the rationals that are representable, with \<open>to_double\<close> rounding an exact rational
  to the nearest representable one (ties to the even significand, overflow to
  infinity), which is what \<open>float()\<close> of a decimal string and each arithmetic
  operation do. The sign of zero is not kept: no function below observes it.
  In \<open>to_double\<close> the significand \<open>m\<close> is at most \<open>2 ^ 53\<close>, so the rounded value
  \<open>m * 2 ^ e\<close> can reach \<open>2 ^ 1024\<close> only from \<open>e = 971\<close> on; the comparison is made
  only there.
\<close>

datatype pyfloat = Finite rat | PosInf | NegInf | NaN

datatype pyexc = ValueError | OverflowError | ZeroDivisionError

definition pow2 :: "int \<Rightarrow> rat" where
  "pow2 k = (if 0 \<le> k then 2 ^ nat k else 1 / 2 ^ nat (- k))"

text \<open>Rounding to an integer, halves to the even neighbour: Python's \<open>round(x)\<close>.\<close>

definition round_half_even :: "rat \<Rightarrow> int" where
  "round_half_even q =
     (let f = \<lfloor>q\<rfloor>; d = q - of_int f
      in if d < 1 / 2 then f
         else if 1 / 2 < d then f + 1
         else if even f then f else f + 1)"

text \<open>The number of binary digits of a positive integer.\<close>

function bit_length :: "int \<Rightarrow> int" where
  "bit_length n = (if n \<le> 0 then 0 else 1 + bit_length (n div 2))"
  by pat_completeness auto
termination
  by (relation "measure nat") auto

declare bit_length.simps [simp del]

text \<open>\<open>ilog2 q\<close> is the integer \<open>k\<close> with \<open>2 ^ k \<le> q < 2 ^ (k + 1)\<close>, for \<open>0 < q\<close>.\<close>

definition ilog2 :: "rat \<Rightarrow> int" where
  "ilog2 q =
     (let (a, b) = quotient_of q;
          k = bit_length a - bit_length b
      in if pow2 k \<le> q then k else k - 1)"

definition to_double :: "rat \<Rightarrow> pyfloat" where
  "to_double q =
     (if q = 0 then Finite 0
      else let e = max (ilog2 \<bar>q\<bar> - 52) (- 1074);
               m = round_half_even (\<bar>q\<bar> / pow2 e);
               v = of_int m * pow2 e
           in if (if e < 971 then False else 2 ^ 1024 \<le> v) then (if 0 < q then PosInf else NegInf)
              else Finite (if 0 < q then v else - v))"

text \<open>\<open>x * c\<close> and \<open>x / c\<close> for a float \<open>x\<close> and a finite non-zero constant \<open>c\<close>.\<close>

definition fmul :: "pyfloat \<Rightarrow> rat \<Rightarrow> pyfloat" where
  "fmul x c =
     (case x of
        Finite q \<Rightarrow> to_double (q * c)
      | PosInf \<Rightarrow> (if 0 < c then PosInf else NegInf)
      | NegInf \<Rightarrow> (if 0 < c then NegInf else PosInf)
      | NaN \<Rightarrow> NaN)"

definition fdiv :: "pyfloat \<Rightarrow> rat \<Rightarrow> pyfloat" where
  "fdiv x c =
     (case x of
        Finite q \<Rightarrow> to_double (q / c)
      | PosInf \<Rightarrow> (if 0 < c then PosInf else NegInf)
      | NegInf \<Rightarrow> (if 0 < c then NegInf else PosInf)
      | NaN \<Rightarrow> NaN)"

text \<open>\<open>int(round(x))\<close>: \<open>round\<close> raises OverflowError on an infinity and ValueError on
  a NaN.\<close>

definition py_round :: "pyfloat \<Rightarrow> pyexc + int" where
  "py_round x =
     (case x of
        Finite q \<Rightarrow> Inr (round_half_even q)
      | PosInf \<Rightarrow> Inl OverflowError
      | NegInf \<Rightarrow> Inl OverflowError
      | NaN \<Rightarrow> Inl ValueError)"

text \<open>
  \<open>float(s)\<close> on a string. An underscore must stand between two digits and is then
  dropped; white space (tab to carriage return, and the space) is removed at both ends;
  what is left is an optional sign followed by \<open>inf\<close>, \<open>infinity\<close>, \<open>nan\<close> (in any
  case) or by a decimal number: digits, an optional point and digits, at least one digit
  in all, and an optional exponent. Anything else is a ValueError, here \<open>None\<close>.
\<close>

fun underscores_ok :: "char \<Rightarrow> string \<Rightarrow> bool" where
  "underscores_ok prev [] = (prev \<noteq> CHR ''_'')"
| "underscores_ok prev (c # cs) =
     ((if c = CHR ''_'' then is_digit prev else (prev = CHR ''_'' \<longrightarrow> is_digit c))
      \<and> underscores_ok c cs)"

definition is_float_space :: "char \<Rightarrow> bool" where
  "is_float_space c = (c \<in> set [CHR 0x09, CHR 0x0A, CHR 0x0B, CHR 0x0C, CHR 0x0D, CHR 0x20])"

definition pow10 :: "int \<Rightarrow> rat" where
  "pow10 k = (if 0 \<le> k then 10 ^ nat k else 1 / 10 ^ nat (- k))"

text \<open>The exponent part: \<open>None\<close> when the rest of the string is not an exponent.\<close>

definition parse_exponent :: "string \<Rightarrow> int option" where
  "parse_exponent s =
     (case s of
        [] \<Rightarrow> Some 0
      | c # cs \<Rightarrow>
          if c = CHR ''e'' \<or> c = CHR ''E'' then
            (let (neg, ds) = (case cs of
                                [] \<Rightarrow> (False, [])
                              | d # ds' \<Rightarrow> if d = CHR ''-'' then (True, ds')
                                            else if d = CHR ''+'' then (False, ds')
                                            else (False, cs))
             in if ds \<noteq> [] \<and> (\<forall>d \<in> set ds. is_digit d)
                then Some (if neg then - int_of_digits ds else int_of_digits ds)
                else None)
          else None)"

text \<open>The unsigned decimal number, as an exact rational.\<close>

definition parse_decimal :: "string \<Rightarrow> rat option" where
  "parse_decimal s =
     (let ip = takeWhile is_digit s; r1 = dropWhile is_digit s;
          (fp, r2) = (case r1 of
                        [] \<Rightarrow> ([], [])
                      | c # cs \<Rightarrow> if c = CHR ''.'' then (takeWhile is_digit cs, dropWhile is_digit cs)
                                  else ([], r1))
      in if ip = [] \<and> fp = [] then None
         else (case parse_exponent r2 of
                 None \<Rightarrow> None
               | Some ex \<Rightarrow> Some (of_int (int_of_digits (ip @ fp)) * pow10 (ex - int (length fp)))))"

definition parse_unsigned_float :: "string \<Rightarrow> pyfloat option" where
  "parse_unsigned_float s =
     (if lower s = ''inf'' \<or> lower s = ''infinity'' then Some PosInf
      else if lower s = ''nan'' then Some NaN
      else map_option to_double (parse_decimal s))"

definition fneg :: "pyfloat \<Rightarrow> pyfloat" where
  "fneg x = (case x of Finite q \<Rightarrow> Finite (- q) | PosInf \<Rightarrow> NegInf | NegInf \<Rightarrow> PosInf | NaN \<Rightarrow> NaN)"

definition float_of_string :: "string \<Rightarrow> pyfloat option" where
  "float_of_string s =
     (if \<not> underscores_ok (CHR 0x00) s then None
      else let t = strip_with is_float_space (filter (\<lambda>c. c \<noteq> CHR ''_'') s)
           in (case t of
                 [] \<Rightarrow> None
               | c # cs \<Rightarrow> if c = CHR ''-'' then map_option fneg (parse_unsigned_float cs)
                           else if c = CHR ''+'' then parse_unsigned_float cs
                           else parse_unsigned_float t))"

section \<open>The amount normaliser (parser.py)\<close>

definition suffix_candidates :: "string list" where
  "suffix_candidates = [''ribu'', ''rb'', ''k'', ''juta'', ''jt'']"

text \<open>The loop over the candidates: the first one the token ends with, or the empty
  string.\<close>

definition find_suffix :: "string \<Rightarrow> string" where
  "find_suffix t = (case filter (ends_with t) suffix_candidates of [] \<Rightarrow> [] | c # _ \<Rightarrow> c)"

text \<open>\<open>parse_amount_token\<close>: \<open>Inr None\<close> is the return value \<open>None\<close>, \<open>Inl e\<close> an
  exception that leaves the function.\<close>

definition parse_amount_token :: "string \<Rightarrow> pyexc + int option" where
  "parse_amount_token token =
     (let token_lower = replace '' '' [] (replace ''idr'' [] (replace ''rp'' [] (lower (strip token))))
      in if token_lower = [] then Inr None
         else let suffix = find_suffix token_lower;
                  token_lower = take (length token_lower - length suffix) token_lower
              in if token_lower = [] then Inr None
                 else if suffix = [] then
                   (let digits_only = filter is_digit token_lower
                    in if digits_only = [] then Inr None
                       else Inr (Some (int_of_digits digits_only)))
                 else
                   (case float_of_string (replace '','' ''.'' token_lower) of
                      None \<Rightarrow> Inr None
                    | Some base_float \<Rightarrow>
                        (case py_round
                                (if suffix \<in> {''rb'', ''ribu'', ''k''} then fmul base_float 1000
                                 else if suffix \<in> {''jt'', ''juta''} then fmul base_float 1000000
                                 else base_float) of
                           Inl e \<Rightarrow> Inl e
                         | Inr v \<Rightarrow> Inr (Some v))))"

section \<open>The money-token plausibility filter (ocr.py)\<close>

definition has_currency :: "string \<Rightarrow> bool" where
  "has_currency token = (contains (strip (lower token)) ''rp'' \<or> contains (strip (lower token)) ''idr'')"

text \<open>The variable \<open>clean\<close> of \<open>_is_plausible_money_token\<close>.\<close>

definition clean_token :: "string \<Rightarrow> string" where
  "clean_token token =
     replace ''idr'' [] (replace ''rp'' [] (replace ''rp.'' [] (replace '' '' [] (strip (lower token)))))"

definition has_suffix :: "string \<Rightarrow> bool" where
  "has_suffix token = (\<exists>suf \<in> set [''rb'', ''ribu'', ''k'', ''jt'', ''juta'']. ends_with (clean_token token) suf)"

definition is_plausible_money_token :: "string \<Rightarrow> bool" where
  "is_plausible_money_token token =
     (let clean = clean_token token
      in if clean = [] then False
         else let digits_only = filter is_digit clean
              in if digits_only = [] then False
                 else if \<not> has_suffix token \<and> 12 < length digits_only then False
                 else if \<not> has_suffix token \<and> \<not> has_currency token
                         \<and> CHR ''.'' \<notin> set clean \<and> CHR '','' \<notin> set clean
                         \<and> 8 \<le> length digits_only then False
                 else if \<not> has_suffix token \<and> (CHR ''.'' \<in> set clean \<or> CHR '','' \<in> set clean) then
                   (let groups = split_on (CHR ''.'') (replace '','' ''.'' clean)
                    in if 5 < length groups then False
                       else if 1 < length groups \<and> (\<exists>part \<in> set (tl groups). length part \<noteq> 3) then False
                       else True)
                 else True)"

text \<open>\<open>re.sub(r"\s+", " ", s)\<close>: every maximal run of white space becomes one space.
  The flag says that the character before was white space.\<close>

fun collapse_from :: "bool \<Rightarrow> string \<Rightarrow> string" where
  "collapse_from in_ws [] = []"
| "collapse_from in_ws (c # cs) =
     (if is_space c then (if in_ws then collapse_from True cs else CHR '' '' # collapse_from True cs)
      else c # collapse_from False cs)"

definition collapse_ws :: "string \<Rightarrow> string" where
  "collapse_ws s = collapse_from False s"

text \<open>\<open>any(k in low for k in ks)\<close>.\<close>

definition contains_any :: "string \<Rightarrow> string list \<Rightarrow> bool" where
  "contains_any low ks = (\<exists>k \<in> set ks. contains low k)"

text \<open>\<open>s.title()\<close>: a letter after a letter is lowered, any other letter is raised.\<close>

fun title_from :: "bool \<Rightarrow> string \<Rightarrow> string" where
  "title_from prev_cased [] = []"
| "title_from prev_cased (c # cs) =
     (if prev_cased then lower_char c else upper_char c) # title_from (is_alpha c) cs"

definition title :: "string \<Rightarrow> string" where
  "title s = title_from False s"

text \<open>\<open>s.capitalize()\<close>: the first character raised, the rest lowered.\<close>

definition capitalize :: "string \<Rightarrow> string" where
  "capitalize s = (case s of [] \<Rightarrow> [] | c # cs \<Rightarrow> upper_char c # lower cs)"
text \<open>The floats that are not below zero: a finite value from \<open>0\<close> on, the
  positive infinity, and the NaN.\<close>

definition nonneg_float :: "pyfloat \<Rightarrow> bool" where
  "nonneg_float x = (case x of Finite q \<Rightarrow> 0 \<le> q | PosInf \<Rightarrow> True | NegInf \<Rightarrow> False | NaN \<Rightarrow> True)"


text \<open>A string is in white-space normal form when every white-space character in it is
  a space that does not follow white space; the flag says that the character before the
  string was white space. These are the strings \<open>re.sub(r"\s+", " ", s)\<close> returns.\<close>

fun wsn :: "bool \<Rightarrow> string \<Rightarrow> bool" where
  "wsn in_ws [] = True"
| "wsn in_ws (c # cs) =
     (if is_space c then \<not> in_ws \<and> c = CHR '' '' \<and> wsn True cs else wsn False cs)"

section \<open>Regular expressions\<close>

text \<open>
  The patterns of the source are values of \<open>rx\<close>, and \<open>rmatch\<close> is the backtracking
  matcher of Python's \<open>re\<close>: from a position it returns the positions at which a match
  of the expression can end, in the order in which backtracking tries them (a greedy
  repetition or option first takes the longer alternative). A position is the character
  before it, if any, and the rest of the string. The first position of the list is the
  match \<open>re\<close> reports.
\<close>

datatype rx =
    Cls "char \<Rightarrow> bool"
  | Eps
  | Seq rx rx
  | Alt rx rx
  | Opt rx
  | Star rx
  | Bnd
  | Eos
  | NotAhead rx

type_synonym pos = "char option \<times> string"

text \<open>\<open>\b\<close>: exactly one of the two neighbours is a word character.\<close>

definition at_boundary :: "char option \<Rightarrow> string \<Rightarrow> bool" where
  "at_boundary prev s =
     ((case prev of None \<Rightarrow> False | Some c \<Rightarrow> is_word c)
      \<noteq> (case s of [] \<Rightarrow> False | c # _ \<Rightarrow> is_word c))"

function rmatch :: "rx \<Rightarrow> pos \<Rightarrow> pos list" where
  "rmatch (Cls P) p = (case snd p of [] \<Rightarrow> [] | c # cs \<Rightarrow> if P c then [(Some c, cs)] else [])"
| "rmatch Eps p = [p]"
| "rmatch (Seq a b) p = concat (map (rmatch b) (rmatch a p))"
| "rmatch (Alt a b) p = rmatch a p @ rmatch b p"
| "rmatch (Opt a) p = rmatch a p @ [p]"
| "rmatch (Star a) p =
     concat (map (rmatch (Star a)) (filter (\<lambda>q. length (snd q) < length (snd p)) (rmatch a p))) @ [p]"
| "rmatch Bnd p = (if at_boundary (fst p) (snd p) then [p] else [])"
| "rmatch Eos p = (if snd p = [] \<or> snd p = [CHR 0x0A] then [p] else [])"
| "rmatch (NotAhead a) p = (if rmatch a p = [] then [p] else [])"
  by pat_completeness auto
termination
  by (relation "measures [\<lambda>(r, p). size r, \<lambda>(r, p). length (snd p)]") auto

text \<open>A pattern with one capturing group is given in three parts: what stands before
  the group, the group, and what stands after it. A pattern without a group is the
  group alone.\<close>

type_synonym pattern = "rx \<times> rx \<times> rx"

definition rmatch3 :: "pattern \<Rightarrow> pos \<Rightarrow> (pos \<times> pos \<times> pos) list" where
  "rmatch3 pat p =
     (case pat of (a, g, b) \<Rightarrow>
        concat (map (\<lambda>p1. concat (map (\<lambda>p2. map (\<lambda>p3. (p1, p2, p3)) (rmatch b p2)) (rmatch g p1)))
                    (rmatch a p)))"

record match =
  m_start :: nat
  m_end :: nat
  m_text :: string
  m_group :: string

text \<open>\<open>pattern.search(s)\<close>: the first start position, from the left, at which the
  pattern matches.\<close>

fun search_from :: "pattern \<Rightarrow> nat \<Rightarrow> char option \<Rightarrow> string \<Rightarrow> match option" where
  "search_from pat i prev s =
     (case rmatch3 pat (prev, s) of
        (p1, p2, p3) # _ \<Rightarrow>
          Some \<lparr>m_start = i, m_end = i + (length s - length (snd p3)),
                m_text = take (length s - length (snd p3)) s,
                m_group = take (length (snd p1) - length (snd p2)) (snd p1)\<rparr>
      | [] \<Rightarrow> (case s of [] \<Rightarrow> None | c # cs \<Rightarrow> search_from pat (Suc i) (Some c) cs))"

definition re_search :: "pattern \<Rightarrow> string \<Rightarrow> match option" where
  "re_search pat s = search_from pat 0 None s"

text \<open>\<open>[m.group(0) for m in pattern.finditer(s)]\<close>: the matches from left to right,
  each search starting where the match before it ended (one character further after an
  empty match).\<close>

function find_all :: "rx \<Rightarrow> char option \<Rightarrow> string \<Rightarrow> string list" where
  "find_all r prev s =
     (case rmatch r (prev, s) of
        [] \<Rightarrow> (case s of [] \<Rightarrow> [] | c # cs \<Rightarrow> find_all r (Some c) cs)
      | q # _ \<Rightarrow>
          if length (snd q) < length s
          then take (length s - length (snd q)) s # find_all r (fst q) (snd q)
          else [] # (case s of [] \<Rightarrow> [] | c # cs \<Rightarrow> find_all r (Some c) cs))"
  by pat_completeness auto
termination
  by (relation "measure (\<lambda>(r, prev, s). length s)") auto

text \<open>Building blocks: a literal under \<open>(?i)\<close>, a sequence, an alternative of
  literals, and the classes of the source's patterns.\<close>

definition chr_ci :: "char \<Rightarrow> rx" where
  "chr_ci c = Cls (\<lambda>d. lower_char d = lower_char c)"

definition lit_ci :: "string \<Rightarrow> rx" where
  "lit_ci s = foldr (\<lambda>c r. Seq (chr_ci c) r) s Eps"

definition seqs :: "rx list \<Rightarrow> rx" where
  "seqs rs = foldr Seq rs Eps"

fun alts :: "rx list \<Rightarrow> rx" where
  "alts [] = Cls (\<lambda>c. False)"
| "alts [r] = r"
| "alts (r # rs) = Alt r (alts rs)"

definition any_of :: "string \<Rightarrow> rx" where
  "any_of cs = Cls (\<lambda>c. c \<in> set cs)"

definition rx_digit :: rx where
  "rx_digit = Cls is_digit"

definition rx_space :: rx where
  "rx_space = Cls is_space"

definition plus :: "rx \<Rightarrow> rx" where
  "plus r = Seq r (Star r)"

text \<open>\<open>(?:rb|ribu|k|jt|juta)\<close>.\<close>

definition rx_suffix :: rx where
  "rx_suffix = alts [lit_ci ''rb'', lit_ci ''ribu'', lit_ci ''k'', lit_ci ''jt'', lit_ci ''juta'']"

text \<open>\<open>MONEY_TOKEN_RE\<close> of ocr.py:
  \<^verbatim>\<open>(?i)\b(?:rp\.?\s*|idr\s*)?\d[\d.,]*(?:\s*(?:rb|ribu|k|jt|juta)\b)?\b\<close>\<close>

definition MONEY_TOKEN_RE :: rx where
  "MONEY_TOKEN_RE =
     seqs [Bnd,
           Opt (Alt (seqs [lit_ci ''rp'', Opt (any_of ''.''), Star rx_space])
                    (seqs [lit_ci ''idr'', Star rx_space])),
           rx_digit,
           Star (Cls (\<lambda>c. is_digit c \<or> c \<in> set ''.,'')),
           Opt (seqs [Star rx_space, rx_suffix, Bnd]),
           Bnd]"

text \<open>\<open>AMOUNT_TOKEN_RE\<close> of parser.py:
  \<^verbatim>\<open>(?i)(?:rp\.?\s*)?(\d+(?:[.,]\d+)?(?:[.,]\d{3})*)(?:\s*(rb|ribu|k|jt|juta)\b)?\<close>;
  only the whole match is read from it.\<close>

definition AMOUNT_TOKEN_RE :: pattern where
  "AMOUNT_TOKEN_RE =
     (Eps,
      seqs [Opt (seqs [lit_ci ''rp'', Opt (any_of ''.''), Star rx_space]),
            plus rx_digit,
            Opt (seqs [any_of ''.,'', plus rx_digit]),
            Star (seqs [any_of ''.,'', rx_digit, rx_digit, rx_digit]),
            Opt (seqs [Star rx_space, rx_suffix, Bnd])],
      Eps)"

section \<open>Categories and free-text parsing (parser.py)\<close>

definition CATEGORY_KEYWORDS :: "(string \<times> string list) list" where
  "CATEGORY_KEYWORDS =
     [(''Makanan & Minuman'',
         [''kopi'', ''makan'', ''minum'', ''resto'', ''warung'', ''gofood'', ''grabfood'', ''snack'', ''jajan'']),
      (''Transportasi'',
         [''bensin'', ''bbm'', ''parkir'', ''tol'', ''gojek'', ''gocar'', ''grab'', ''kereta'', ''bus'', ''ojek'']),
      (''Belanja'',
         [''belanja'', ''indomaret'', ''alfamart'', ''supermarket'', ''shopee'', ''tokopedia'', ''lazada'',
          ''pakaian'', ''sepatu'']),
      (''Tagihan'',
         [''listrik'', ''pln'', ''air'', ''internet'', ''wifi'', ''pulsa'', ''paket data'', ''token'', ''bpjs'']),
      (''Hiburan'',
         [''nonton'', ''bioskop'', ''netflix'', ''spotify'', ''game'', ''steam'', ''rekreasi'']),
      (''Kesehatan'',
         [''dokter'', ''obat'', ''klinik'', ''apotek'', ''vitamin'', ''rumah sakit'']),
      (''Pendidikan'',
         [''kursus'', ''buku'', ''sekolah'', ''kuliah'', ''pelatihan''])]"

definition STOPWORDS :: "string list" where
  "STOPWORDS = [''beli'', ''bayar'', ''belanja'', ''order'', ''pesan'', ''pesen'', ''isi'', ''topup'', ''top up'']"

record ParsedExpense =
  item :: string
  amount :: int
  category :: string

record ParsedSplitBill =
  subtotal :: int
  people :: int
  service_amount :: int
  tax_amount :: int

definition grand_total :: "ParsedSplitBill \<Rightarrow> int" where
  "grand_total b = subtotal b + service_amount b + tax_amount b"

text \<open>The truth value of an \<open>Optional[int]\<close>: \<open>None\<close> and \<open>0\<close> are false.\<close>

definition truthy :: "int option \<Rightarrow> bool" where
  "truthy x = (case x of None \<Rightarrow> False | Some v \<Rightarrow> v \<noteq> 0)"

text \<open>\<open>a or b\<close> on two calls that may raise: \<open>b\<close> is evaluated only when \<open>a\<close> is
  false.\<close>

definition or_else :: "pyexc + int option \<Rightarrow> pyexc + int option \<Rightarrow> pyexc + int option" where
  "or_else a b = (case a of Inl e \<Rightarrow> Inl e | Inr x \<Rightarrow> if truthy x then Inr x else b)"

definition parse_amount_from_text :: "string \<Rightarrow> pyexc + int option" where
  "parse_amount_from_text text =
     (case re_search AMOUNT_TOKEN_RE text of
        None \<Rightarrow> Inr None
      | Some m \<Rightarrow>
          (case parse_amount_token (m_text m) of
             Inl e \<Rightarrow> Inl e
           | Inr parsed \<Rightarrow>
               if \<not> truthy parsed \<or> (case parsed of None \<Rightarrow> True | Some v \<Rightarrow> v \<le> 0) then Inr None
               else Inr parsed))"

definition infer_category :: "string \<Rightarrow> string" where
  "infer_category item_text =
     (let low = lower item_text
      in case filter (\<lambda>(cat, keywords). contains_any low keywords) CATEGORY_KEYWORDS of
           [] \<Rightarrow> ''Lainnya''
         | (cat, keywords) # _ \<Rightarrow> cat)"

definition normalize_category :: "string \<Rightarrow> string" where
  "normalize_category name =
     (let clean = lower (strip (collapse_ws name))
      in if clean = [] then ''Lainnya''
         else (case filter (\<lambda>cat. clean = lower cat) (map fst CATEGORY_KEYWORDS) of
                 cat # _ \<Rightarrow> cat
               | [] \<Rightarrow> title clean))"

text \<open>The category override of \<open>parse_expense_input\<close>:
  \<^verbatim>\<open>(?i)(?:kategori|cat)\s*[:=-]?\s*([a-zA-Z/& ]+)$\<close>\<close>

definition CATEGORY_RE :: pattern where
  "CATEGORY_RE =
     (seqs [Alt (lit_ci ''kategori'') (lit_ci ''cat''), Star rx_space, Opt (any_of '':=-''), Star rx_space],
      plus (Cls (\<lambda>c. is_alpha c \<or> c \<in> set ''/& '')),
      Eos)"

text \<open>The loop over the stop words: the first one the item starts with is cut off.\<close>

definition strip_stopword :: "string \<Rightarrow> string" where
  "strip_stopword item_candidate =
     (case filter (\<lambda>stopword. starts_with (lower item_candidate) (stopword @ '' '')) STOPWORDS of
        [] \<Rightarrow> item_candidate
      | stopword # _ \<Rightarrow> strip (drop (length stopword) item_candidate))"

definition parse_expense_input :: "string \<Rightarrow> pyexc + ParsedExpense option" where
  "parse_expense_input text =
     (let clean = collapse_ws (strip text)
      in if clean = [] then Inr None
         else let category_match = re_search CATEGORY_RE clean;
                  category_v = (case category_match of
                                None \<Rightarrow> []
                              | Some m \<Rightarrow> normalize_category (m_group m));
                  clean = (case category_match of
                             None \<Rightarrow> clean
                           | Some m \<Rightarrow> strip (take (m_start m) clean))
              in case re_search AMOUNT_TOKEN_RE clean of
                   None \<Rightarrow> Inr None
                 | Some amount_match \<Rightarrow>
                     (case parse_amount_token (m_text amount_match) of
                        Inl e \<Rightarrow> Inl e
                      | Inr None \<Rightarrow> Inr None
                      | Inr (Some amount_v) \<Rightarrow>
                          if amount_v = 0 \<or> amount_v \<le> 0 then Inr None
                          else let item_candidate =
                                     strip_stopword
                                       (strip_chars '' ,.-:''
                                          (take (m_start amount_match) clean @ drop (m_end amount_match) clean))
                               in if item_candidate = [] then Inr None
                                  else let item_v = capitalize (strip item_candidate);
                                           selected_category =
                                             (if category_v \<noteq> [] then category_v else infer_category item_v)
                                       in Inr (Some \<lparr>item = item_v, amount = amount_v,
                                                      category = selected_category\<rparr>)))"

text \<open>\<open>parse_percentage_after_keyword\<close>, with the pattern
  \<^verbatim>\<open>(?i)KEYWORD\s*[:=]?\s*([0-9]+(?:[.,][0-9]+)?)\s*%\<close>. A string that \<open>float()\<close>
  rejects would raise ValueError.\<close>

definition percentage_re :: "string \<Rightarrow> pattern" where
  "percentage_re keyword =
     (seqs [lit_ci keyword, Star rx_space, Opt (any_of '':=''), Star rx_space],
      seqs [plus rx_digit, Opt (seqs [any_of ''.,'', plus rx_digit])],
      seqs [Star rx_space, any_of ''%''])"

definition parse_percentage_after_keyword :: "string \<Rightarrow> string \<Rightarrow> pyexc + pyfloat option" where
  "parse_percentage_after_keyword text keyword =
     (case re_search (percentage_re keyword) text of
        None \<Rightarrow> Inr None
      | Some m \<Rightarrow>
          (case float_of_string (replace '','' ''.'' (m_group m)) of
             None \<Rightarrow> Inl ValueError
           | Some x \<Rightarrow> Inr (Some x)))"

text \<open>\<open>parse_amount_after_keyword\<close>, with the pattern
  \<^verbatim>\<open>(?i)KEYWORD\s*[:=]?\s*((?:rp\.?\s*)?\d[\d.,]*(?:\s*(?:rb|ribu|k|jt|juta)\b)?)(?![\d%])\<close>\<close>

definition amount_after_re :: "string \<Rightarrow> pattern" where
  "amount_after_re keyword =
     (seqs [lit_ci keyword, Star rx_space, Opt (any_of '':=''), Star rx_space],
      seqs [Opt (seqs [lit_ci ''rp'', Opt (any_of ''.''), Star rx_space]),
            rx_digit,
            Star (Cls (\<lambda>c. is_digit c \<or> c \<in> set ''.,'')),
            Opt (seqs [Star rx_space, rx_suffix, Bnd])],
      NotAhead (Cls (\<lambda>c. is_digit c \<or> c = CHR ''%'')))"

definition parse_amount_after_keyword :: "string \<Rightarrow> string \<Rightarrow> pyexc + int option" where
  "parse_amount_after_keyword text keyword =
     (case re_search (amount_after_re keyword) text of
        None \<Rightarrow> Inr None
      | Some m \<Rightarrow> parse_amount_token (m_group m))"

text \<open>The two patterns for the number of people:
  \<^verbatim>\<open>(?i)(?:bagi|untuk|dibagi)\s*(\d+)\s*(?:orang|org|pax|teman)?\<close> and
  \<^verbatim>\<open>(?i)(\d+)\s*(?:orang|org|pax|teman)\<close>\<close>

definition rx_people_unit :: rx where
  "rx_people_unit = alts [lit_ci ''orang'', lit_ci ''org'', lit_ci ''pax'', lit_ci ''teman'']"

definition PEOPLE_RE :: pattern where
  "PEOPLE_RE =
     (seqs [alts [lit_ci ''bagi'', lit_ci ''untuk'', lit_ci ''dibagi''], Star rx_space],
      plus rx_digit,
      seqs [Star rx_space, Opt rx_people_unit])"

definition PEOPLE_UNIT_RE :: pattern where
  "PEOPLE_UNIT_RE = (Eps, plus rx_digit, seqs [Star rx_space, rx_people_unit])"

text \<open>\<open>int(round(n * pct / 100))\<close> for an integer \<open>n\<close> and a float \<open>pct\<close>: the integer
  is converted to a float (OverflowError when it is too large), the product and the
  quotient are rounded to floats, and \<open>round\<close> gives the integer.\<close>

definition float_mul :: "pyfloat \<Rightarrow> pyfloat \<Rightarrow> pyfloat" where
  "float_mul x y =
     (case (x, y) of
        (NaN, _) \<Rightarrow> NaN
      | (_, NaN) \<Rightarrow> NaN
      | (Finite a, Finite b) \<Rightarrow> to_double (a * b)
      | (Finite a, PosInf) \<Rightarrow> if a = 0 then NaN else if 0 < a then PosInf else NegInf
      | (Finite a, NegInf) \<Rightarrow> if a = 0 then NaN else if 0 < a then NegInf else PosInf
      | (PosInf, Finite b) \<Rightarrow> if b = 0 then NaN else if 0 < b then PosInf else NegInf
      | (NegInf, Finite b) \<Rightarrow> if b = 0 then NaN else if 0 < b then NegInf else PosInf
      | (PosInf, PosInf) \<Rightarrow> PosInf
      | (PosInf, NegInf) \<Rightarrow> NegInf
      | (NegInf, PosInf) \<Rightarrow> NegInf
      | (NegInf, NegInf) \<Rightarrow> PosInf)"

definition float_of_int :: "int \<Rightarrow> pyexc + pyfloat" where
  "float_of_int n =
     (case to_double (of_int n) of
        Finite q \<Rightarrow> Inr (Finite q)
      | _ \<Rightarrow> Inl OverflowError)"

definition percent_of :: "int \<Rightarrow> pyfloat \<Rightarrow> pyexc + int" where
  "percent_of n pct =
     (case float_of_int n of
        Inl e \<Rightarrow> Inl e
      | Inr x \<Rightarrow> py_round (fdiv (float_mul x pct) 100))"

text \<open>\<open>parse_split_bill\<close>, block by block: the number of people, the subtotal, the
  service amount and the tax amount.\<close>

definition split_people :: "string \<Rightarrow> int option" where
  "split_people low =
     (case (case re_search PEOPLE_RE low of
              None \<Rightarrow> re_search PEOPLE_UNIT_RE low
            | Some m \<Rightarrow> Some m) of
        None \<Rightarrow> None
      | Some people_match \<Rightarrow> Some (int_of_digits (m_group people_match)))"

definition split_subtotal :: "string \<Rightarrow> pyexc + int option" where
  "split_subtotal text =
     or_else (parse_amount_after_keyword text ''total'')
       (or_else (parse_amount_after_keyword text ''tagihan'')
          (or_else (parse_amount_after_keyword text ''bill'')
             (parse_amount_from_text text)))"

definition split_service :: "string \<Rightarrow> int \<Rightarrow> pyexc + int" where
  "split_service text subtotal_v =
     (case or_else (parse_amount_after_keyword text ''service'') (Inr (Some 0)) of
        Inl e \<Rightarrow> Inl e
      | Inr None \<Rightarrow> Inr 0
      | Inr (Some service_v) \<Rightarrow>
          if service_v = 0 then
            (case parse_percentage_after_keyword text ''service'' of
               Inl e \<Rightarrow> Inl e
             | Inr None \<Rightarrow> Inr 0
             | Inr (Some service_pct) \<Rightarrow> percent_of subtotal_v service_pct)
          else Inr service_v)"

definition split_tax :: "string \<Rightarrow> int \<Rightarrow> pyexc + int" where
  "split_tax text base =
     (case or_else (parse_amount_after_keyword text ''pajak'')
             (or_else (parse_amount_after_keyword text ''ppn'') (Inr (Some 0))) of
        Inl e \<Rightarrow> Inl e
      | Inr None \<Rightarrow> Inr 0
      | Inr (Some tax_v) \<Rightarrow>
          if tax_v = 0 then
            (case parse_percentage_after_keyword text ''pajak'' of
               Inl e \<Rightarrow> Inl e
             | Inr (Some tax_pct) \<Rightarrow> percent_of base tax_pct
             | Inr None \<Rightarrow>
                 (case parse_percentage_after_keyword text ''ppn'' of
                    Inl e \<Rightarrow> Inl e
                  | Inr None \<Rightarrow> Inr 0
                  | Inr (Some tax_pct) \<Rightarrow> percent_of base tax_pct))
          else Inr tax_v)"

definition parse_split_bill :: "string \<Rightarrow> pyexc + ParsedSplitBill option" where
  "parse_split_bill text =
     (let low = lower text
      in if \<not> contains low ''split bill'' \<and> \<not> contains low ''patungan'' then Inr None
         else (case split_people low of
                 None \<Rightarrow> Inr None
               | Some people_v \<Rightarrow>
                   if people_v \<le> 0 then Inr None
                   else (case split_subtotal text of
                           Inl e \<Rightarrow> Inl e
                         | Inr None \<Rightarrow> Inr None
                         | Inr (Some subtotal_v) \<Rightarrow>
                             if subtotal_v = 0 \<or> subtotal_v \<le> 0 then Inr None
                             else (case split_service text subtotal_v of
                                     Inl e \<Rightarrow> Inl e
                                   | Inr service_v \<Rightarrow>
                                       (case split_tax text (subtotal_v + service_v) of
                                          Inl e \<Rightarrow> Inl e
                                        | Inr tax_v \<Rightarrow>
                                            Inr (Some \<lparr>subtotal = subtotal_v, people = people_v,
                                                        service_amount = service_v,
                                                        tax_amount = tax_v\<rparr>))))))"

text \<open>The per-person share of \<open>_reply_split_bill\<close> (service.py):
  \<open>int(math.ceil(split.grand_total / split.people))\<close>. The quotient of the two integers
  is a float: the division raises ZeroDivisionError on a zero divisor and OverflowError
  when the quotient is too large for a float.\<close>

definition py_ceil :: "pyfloat \<Rightarrow> pyexc + int" where
  "py_ceil x =
     (case x of
        Finite q \<Rightarrow> Inr \<lceil>q\<rceil>
      | PosInf \<Rightarrow> Inl OverflowError
      | NegInf \<Rightarrow> Inl OverflowError
      | NaN \<Rightarrow> Inl ValueError)"

definition per_person :: "ParsedSplitBill \<Rightarrow> pyexc + int" where
  "per_person split =
     (if people split = 0 then Inl ZeroDivisionError
      else (case to_double (of_int (grand_total split) / of_int (people split)) of
              Finite q \<Rightarrow> py_ceil (Finite q)
            | _ \<Rightarrow> Inl OverflowError))"

section \<open>Category names as strings of code points\<close>
















section \<open>Receipt extraction (ocr.py)\<close>

definition TOTAL_KEYWORDS :: "string list" where
  "TOTAL_KEYWORDS = [''grand total'', ''total bayar'', ''amount due'', ''netto'', ''jumlah'', ''total'']"

definition BANK_TOTAL_KEYWORDS :: "string list" where
  "BANK_TOTAL_KEYWORDS =
     [''total amount'', ''jumlah transfer'', ''nominal transfer'', ''transfer amount'',
      ''debit amount'', ''nominal'', ''total debit'']"

definition IGNORE_TOTAL_HINTS :: "string list" where
  "IGNORE_TOTAL_HINTS =
     [''ppn'', ''tax'', ''pajak'', ''service'', ''change'', ''kembalian'', ''payment'', ''paid'',
      ''debit'', ''credit'', ''cash'', ''tunai'', ''diskon'', ''discount'', ''admin'', ''subtotal'',
      ''sub total'', ''saldo'', ''balance'', ''available'', ''fee'', ''pan'', ''terminal id'',
      ''reference no'', ''reference'', ''ref'']"

definition MERCHANT_SKIP_HINTS :: "string list" where
  "MERCHANT_SKIP_HINTS =
     [''struk'', ''receipt'', ''invoice'', ''tanggal'', ''date'', ''table'', ''cashier'', ''no.'',
      ''telp'', ''phone'']"

definition BANK_HINTS :: "string list" where
  "BANK_HINTS =
     [''bank'', ''rekening'', ''no rek'', ''account'', ''transfer'', ''recipient'', ''va '',
      ''virtual account'', ''m-banking'', ''mobile banking'', ''internet banking'', ''debit'',
      ''kredit'', ''qris'', ''trx'', ''ref'']"

definition BANK_NAMES :: "string list" where
  "BANK_NAMES =
     [''bca'', ''bri'', ''bni'', ''mandiri'', ''permata'', ''cimb'', ''danamon'', ''ocbc'', ''dbs'',
      ''jago'', ''blu'', ''seabank'', ''maybank'']"

definition MERCHANT_CATEGORY_OVERRIDES :: "(string \<times> string) list" where
  "MERCHANT_CATEGORY_OVERRIDES =
     [(''alfamart'', ''Belanja Bulanan''), (''indomaret'', ''Belanja Bulanan''),
      (''superindo'', ''Belanja Bulanan''), (''hypermart'', ''Belanja Bulanan''),
      (''starbucks'', ''Kopi/Snack''), (''kopi kenangan'', ''Kopi/Snack''),
      (''janji jiwa'', ''Kopi/Snack''), (''fore'', ''Kopi/Snack''),
      (''mcd'', ''Makanan & Minuman''), (''kfc'', ''Makanan & Minuman''),
      (''burger king'', ''Makanan & Minuman'')]"

text \<open>The argument of \<open>extract_receipt_data\<close> is a string or a sequence of strings.\<close>

datatype ocr_input = OcrText string | OcrLines "string list"

text \<open>\<open>str.splitlines()\<close>: a line ends at a line feed, a carriage return (with the
  line feed after it, if any), a vertical tab, a form feed or one of the separators 0x1C
  to 0x1E; there is no empty last line.\<close>

definition is_line_break :: "char \<Rightarrow> bool" where
  "is_line_break c = (c \<in> set [CHR 0x0A, CHR 0x0B, CHR 0x0C, CHR 0x0D, CHR 0x1C, CHR 0x1D, CHR 0x1E])"

fun splitlines_acc :: "string \<Rightarrow> string \<Rightarrow> string list" where
  "splitlines_acc acc [] = (if acc = [] then [] else [rev acc])"
| "splitlines_acc acc [c] = (if is_line_break c then [rev acc] else [rev (c # acc)])"
| "splitlines_acc acc (c # d # cs) =
     (if c = CHR 0x0D \<and> d = CHR 0x0A then rev acc # splitlines_acc [] cs
      else if is_line_break c then rev acc # splitlines_acc [] (d # cs)
      else splitlines_acc (c # acc) (d # cs))"

definition splitlines :: "string \<Rightarrow> string list" where
  "splitlines s = splitlines_acc [] s"

definition normalize_lines :: "ocr_input \<Rightarrow> string list" where
  "normalize_lines ocr_input =
     (let raw_lines = (case ocr_input of OcrText s \<Rightarrow> splitlines s | OcrLines ls \<Rightarrow> ls)
      in map (\<lambda>line. strip (collapse_ws line)) (filter (\<lambda>line. strip line \<noteq> []) raw_lines))"

text \<open>\<open>_extract_amounts\<close>: the loop over the tokens. An exception of
  \<open>parse_amount_token\<close> leaves the function at the token that raises it.\<close>

fun amounts_of_tokens :: "string list \<Rightarrow> pyexc + int list" where
  "amounts_of_tokens [] = Inr []"
| "amounts_of_tokens (token # tokens) =
     (if \<not> is_plausible_money_token token then amounts_of_tokens tokens
      else (case parse_amount_token token of
              Inl e \<Rightarrow> Inl e
            | Inr parsed \<Rightarrow>
                (case amounts_of_tokens tokens of
                   Inl e \<Rightarrow> Inl e
                 | Inr amounts \<Rightarrow>
                     Inr (case parsed of
                            None \<Rightarrow> amounts
                          | Some v \<Rightarrow> if v \<noteq> 0 \<and> 100 \<le> v \<and> v \<le> 2000000000
                                      then v # amounts else amounts))))"

definition extract_amounts :: "string \<Rightarrow> pyexc + int list" where
  "extract_amounts text = amounts_of_tokens (find_all MONEY_TOKEN_RE None text)"

definition detect_bank_transaction :: "string list \<Rightarrow> bool" where
  "detect_bank_transaction lines =
     (let joined = lower (join '' '' lines);
          has_bank_name = contains_any joined BANK_NAMES;
          has_bank_context = contains_any joined
            [''transfer'', ''penerima'', ''recipient'', ''beneficiary'', ''receiver'', ''rekening'',
             ''account'', ''nominal'', ''debit'', ''saldo'', ''ref'', ''trx'', ''qris'']
      in if has_bank_name \<and> has_bank_context then True
         else 2 \<le> length (filter (contains joined) BANK_HINTS))"

text \<open>\<open>cut_labels_re\<close> of \<open>_extract_total\<close>:
  \<^verbatim>\<open>(?i)\b(source of fund|qris reference|reference|ref no|merchant pan|customer pan|terminal id|acquirer|saldo|balance|available|fee|admin)\b\<close>\<close>

definition cut_labels_re :: pattern where
  "cut_labels_re =
     (Bnd,
      alts (map lit_ci
        [''source of fund'', ''qris reference'', ''reference'', ''ref no'', ''merchant pan'',
         ''customer pan'', ''terminal id'', ''acquirer'', ''saldo'', ''balance'', ''available'',
         ''fee'', ''admin'']),
      Bnd)"

text \<open>The inner loop of \<open>_extract_total\<close> over the keywords, for one line: the amounts
  it appends to \<open>keyword_amounts\<close>.\<close>

fun inline_amounts :: "string list \<Rightarrow> string \<Rightarrow> pyexc + int list" where
  "inline_amounts [] line = Inr []"
| "inline_amounts (keyword # keywords) line =
     (if contains (lower line) keyword then
        (let segment = drop (find_index (lower line) keyword + length keyword) line;
             segment = (case re_search cut_labels_re segment of
                          None \<Rightarrow> segment
                        | Some cut_match \<Rightarrow> take (m_start cut_match) segment)
         in case extract_amounts segment of
              Inl e \<Rightarrow> Inl e
            | Inr amounts \<Rightarrow>
                (case inline_amounts keywords line of
                   Inl e \<Rightarrow> Inl e
                 | Inr others \<Rightarrow> Inr (case amounts of [] \<Rightarrow> others | a # _ \<Rightarrow> a # others)))
      else inline_amounts keywords line)"

text \<open>The body of the first loop of \<open>_extract_total\<close> for the line at the head of
  \<open>lines\<close>, whose successor, if any, is the line after it.\<close>

definition line_keyword_amounts :: "string list \<Rightarrow> string \<Rightarrow> string list \<Rightarrow> pyexc + int list" where
  "line_keyword_amounts keywords line rest =
     (let low = lower line
      in if contains low ''subtotal'' \<or> contains low ''sub total'' then Inr []
         else if \<not> contains_any low keywords then Inr []
         else (case inline_amounts keywords line of
                 Inl e \<Rightarrow> Inl e
               | Inr found \<Rightarrow>
                   if found = [] then
                     (case rest of
                        [] \<Rightarrow> Inr []
                      | next_line # _ \<Rightarrow>
                          if \<not> contains_any (lower next_line) IGNORE_TOTAL_HINTS then
                            (case extract_amounts next_line of
                               Inl e \<Rightarrow> Inl e
                             | Inr next_amounts \<Rightarrow>
                                 Inr (case next_amounts of [] \<Rightarrow> [] | a # _ \<Rightarrow> [a]))
                          else Inr [])
                   else Inr found))"

fun keyword_amounts :: "string list \<Rightarrow> string list \<Rightarrow> pyexc + int list" where
  "keyword_amounts keywords [] = Inr []"
| "keyword_amounts keywords (line # rest) =
     (case line_keyword_amounts keywords line rest of
        Inl e \<Rightarrow> Inl e
      | Inr here \<Rightarrow>
          (case keyword_amounts keywords rest of
             Inl e \<Rightarrow> Inl e
           | Inr later \<Rightarrow> Inr (here @ later)))"

text \<open>The second loop of \<open>_extract_total\<close>: the amounts from 1000 on of the lines
  without an ignore hint.\<close>

fun fallback_amounts :: "string list \<Rightarrow> pyexc + int list" where
  "fallback_amounts [] = Inr []"
| "fallback_amounts (line # rest) =
     (if contains_any (lower line) IGNORE_TOTAL_HINTS then fallback_amounts rest
      else (case extract_amounts line of
              Inl e \<Rightarrow> Inl e
            | Inr amounts \<Rightarrow>
                (case fallback_amounts rest of
                   Inl e \<Rightarrow> Inl e
                 | Inr later \<Rightarrow> Inr (filter (\<lambda>amount. 1000 \<le> amount) amounts @ later))))"

definition total_keywords_for :: "bool \<Rightarrow> string list" where
  "total_keywords_for is_bank = (if is_bank then BANK_TOTAL_KEYWORDS @ TOTAL_KEYWORDS else TOTAL_KEYWORDS)"

definition extract_total :: "string list \<Rightarrow> bool \<Rightarrow> pyexc + (int option \<times> bool)" where
  "extract_total lines is_bank =
     (case keyword_amounts (total_keywords_for is_bank) lines of
        Inl e \<Rightarrow> Inl e
      | Inr kw_amounts \<Rightarrow>
          if kw_amounts \<noteq> [] then
            (let sorted_amounts = sort kw_amounts
             in Inr (Some (sorted_amounts ! (length sorted_amounts div 2)), False))
          else (case fallback_amounts lines of
                  Inl e \<Rightarrow> Inl e
                | Inr all_amounts \<Rightarrow>
                    if all_amounts \<noteq> [] then Inr (Some (Max (set all_amounts)), True)
                    else Inr (None, False)))"

text \<open>Comparing floats: \<open>x < y\<close> is false when one side is a NaN.\<close>

definition float_less :: "pyfloat \<Rightarrow> pyfloat \<Rightarrow> bool" where
  "float_less x y =
     (case (x, y) of
        (Finite a, Finite b) \<Rightarrow> a < b
      | (Finite a, PosInf) \<Rightarrow> True
      | (NegInf, Finite b) \<Rightarrow> True
      | (NegInf, PosInf) \<Rightarrow> True
      | _ \<Rightarrow> False)"

text \<open>The ratio of \<open>_is_noisy\<close>: \<open>alnum_count / printable_count\<close> is the quotient of
  two integers, rounded to a float.\<close>

definition alnum_ratio :: "string \<Rightarrow> pyfloat" where
  "alnum_ratio joined =
     (let alnum_count = length (filter is_alnum joined);
          printable_count = length (filter (\<lambda>c. \<not> is_space c) joined)
      in if printable_count \<noteq> 0
         then to_double (of_int (int alnum_count) / of_int (int printable_count))
         else Finite 0)"

definition is_noisy :: "string list \<Rightarrow> int option \<Rightarrow> bool \<Rightarrow> bool" where
  "is_noisy lines total_opt used_fallback =
     (if lines = [] then True
      else let ratio = alnum_ratio (join '' '' lines);
               very_short = (length lines \<le> 2);
               no_total = (case total_opt of None \<Rightarrow> True | Some t \<Rightarrow> t < 1000);
               weak_text = float_less ratio (to_double (45 / 100));
               weak_fallback = (used_fallback \<and> (very_short \<or> weak_text))
           in no_total \<or> weak_fallback)"

text \<open>\<open>_pick_merchant\<close>: the loop over the first three lines, with the best score and
  the merchant found so far.\<close>

fun pick_merchant_loop :: "string list \<Rightarrow> int \<Rightarrow> string \<Rightarrow> string" where
  "pick_merchant_loop [] best_score found = found"
| "pick_merchant_loop (line # rest) best_score found =
     (let low = lower line
      in if contains_any low MERCHANT_SKIP_HINTS then pick_merchant_loop rest best_score found
         else let letters = int (length (filter is_alpha line));
                  digits = int (length (filter is_digit line));
                  score = letters - digits * 2;
                  score = (if contains low ''rp'' then score - 8 else score)
              in if best_score < score \<and> 3 \<le> letters
                 then pick_merchant_loop rest score (title line)
                 else pick_merchant_loop rest best_score found)"

definition pick_merchant :: "string list \<Rightarrow> string" where
  "pick_merchant lines = pick_merchant_loop (take 3 lines) (- 999) ''Merchant tidak diketahui''"

text \<open>The inline recipient of \<open>_pick_bank_merchant\<close>:
  \<^verbatim>\<open>(?i)(?:penerima|recipient|receiver|beneficiary|tujuan|kepada)\s*[:=-]\s*(.+)$\<close>\<close>

definition RECIPIENT_RE :: pattern where
  "RECIPIENT_RE =
     (seqs [alts (map lit_ci [''penerima'', ''recipient'', ''receiver'', ''beneficiary'', ''tujuan'', ''kepada'']),
            Star rx_space, any_of '':=-'', Star rx_space],
      plus (Cls (\<lambda>c. c \<noteq> CHR 0x0A)),
      Eos)"

definition recipient_labels :: "string list" where
  "recipient_labels =
     [''penerima'', ''recipient'', ''receiver'', ''beneficiary'', ''tujuan'', ''kepada'',
      ''nama penerima'', ''nama tujuan'']"

definition invalid_hints :: "string list" where
  "invalid_hints = [''pan'', ''ref'', ''terminal'', ''id'', ''rekening'', ''account'']"

text \<open>The first loop of \<open>_pick_bank_merchant\<close>: the recipient it returns, if any.\<close>

fun bank_recipient :: "string list \<Rightarrow> string option" where
  "bank_recipient [] = None"
| "bank_recipient (line # rest) =
     (if contains_any (lower line) recipient_labels then
        (let candidate = (case re_search RECIPIENT_RE line of
                            Some inline_match \<Rightarrow> strip (m_group inline_match)
                          | None \<Rightarrow> (case rest of [] \<Rightarrow> [] | next_line # _ \<Rightarrow> strip next_line));
             digit_ratio = to_double (of_int (int (length (filter is_digit candidate)))
                                      / of_int (int (max (length candidate) 1)))
         in if 3 \<le> length candidate \<and> \<not> contains_any (lower candidate) invalid_hints
               \<and> float_less digit_ratio (to_double (4 / 10))
            then Some (title candidate)
            else bank_recipient rest)
      else bank_recipient rest)"

text \<open>The second loop: the first bank name in one of the lines.\<close>

fun bank_name_line :: "string list \<Rightarrow> string option" where
  "bank_name_line [] = None"
| "bank_name_line (line # rest) =
     (case filter (contains (lower line)) BANK_NAMES of
        bank # _ \<Rightarrow> Some (''Transfer '' @ upper bank)
      | [] \<Rightarrow> bank_name_line rest)"

definition pick_bank_merchant :: "string list \<Rightarrow> string" where
  "pick_bank_merchant lines =
     (case bank_recipient lines of
        Some found \<Rightarrow> found
      | None \<Rightarrow> (case bank_name_line (take 6 lines) of
                   Some found \<Rightarrow> found
                 | None \<Rightarrow> ''Transaksi Bank''))"

definition pick_category :: "string \<Rightarrow> string list \<Rightarrow> string" where
  "pick_category merchant_name lines =
     (case filter (\<lambda>(key, cat). contains (lower merchant_name) key) MERCHANT_CATEGORY_OVERRIDES of
        (key, cat) # _ \<Rightarrow> cat
      | [] \<Rightarrow>
          (let infer_from_text = infer_category (merchant_name @ '' '' @ join '' '' lines)
           in if infer_from_text \<noteq> ''Lainnya'' then infer_from_text else ''Belanja Lainnya''))"

text \<open>\<open>DATE_RE\<close> and \<open>DATE_WORD_RE\<close> of ocr.py:
  \<^verbatim>\<open>\b(\d{1,2}[/-]\d{1,2}[/-]\d{2,4})\b\<close> and
  \<^verbatim>\<open>\b(\d{1,2}\s+(?:jan|feb|mar|apr|mei|may|jun|jul|agu|aug|sep|okt|oct|nov|des|dec)[a-z]*\s+\d{2,4})\b\<close>
  (ignoring case).\<close>

definition rx_digits_2_4 :: rx where
  "rx_digits_2_4 = seqs [rx_digit, rx_digit, Opt (Seq rx_digit (Opt rx_digit))]"

definition DATE_RE :: pattern where
  "DATE_RE =
     (Bnd,
      seqs [rx_digit, Opt rx_digit, any_of ''/-'', rx_digit, Opt rx_digit, any_of ''/-'', rx_digits_2_4],
      Bnd)"

definition DATE_WORD_RE :: pattern where
  "DATE_WORD_RE =
     (Bnd,
      seqs [rx_digit, Opt rx_digit, plus rx_space,
            alts (map lit_ci [''jan'', ''feb'', ''mar'', ''apr'', ''mei'', ''may'', ''jun'', ''jul'',
                              ''agu'', ''aug'', ''sep'', ''okt'', ''oct'', ''nov'', ''des'', ''dec'']),
            Star (Cls is_alpha), plus rx_space, rx_digits_2_4],
      Bnd)"

definition find_date :: "string \<Rightarrow> string" where
  "find_date text =
     (case re_search DATE_RE text of
        Some date_match \<Rightarrow> m_group date_match
      | None \<Rightarrow> (case re_search DATE_WORD_RE text of
                   Some date_word_match \<Rightarrow> m_group date_word_match
                 | None \<Rightarrow> ''-''))"

text \<open>\<open>format_idr\<close> of parser.py: \<open>f"Rp{amount:,}".replace(",", ".")\<close>.\<close>

function decimal :: "int \<Rightarrow> string" where
  "decimal n = (if n < 10 then [''0123456789'' ! nat n] else decimal (n div 10) @ [''0123456789'' ! nat (n mod 10)])"
  by pat_completeness auto
termination
  by (relation "measure nat") auto

fun group3 :: "string \<Rightarrow> string" where
  "group3 (a # b # c # d # rest) = a # b # c # CHR '','' # group3 (d # rest)"
| "group3 ds = ds"

definition format_idr :: "int \<Rightarrow> string" where
  "format_idr n =
     ''Rp'' @ replace '','' ''.''
               ((if n < 0 then ''-'' else []) @ rev (group3 (rev (decimal \<bar>n\<bar>))))"

record ReceiptExtraction =
  merchant :: string
  date_text :: "string option"
  total :: int
  category :: string
  used_fallback_total :: bool
  is_bank_transaction :: bool

record OCRResult =
  raw_text :: string
  receipt :: "ReceiptExtraction option"
  needs_manual_total_confirmation :: bool
  reply_text :: string


definition noisy_reply :: string where
  "noisy_reply = ''Sepertinya struknya agak buram, boleh konfirmasi total belanjanya berapa, Kak?''"

definition confirmation_text :: "ReceiptExtraction \<Rightarrow> string" where
  "confirmation_text r =
     ''Wah, '' @ (if is_bank_transaction r then ''bukti transaksi bank'' else ''struk'')
     @ '' dari '' @ merchant r @ '' ya! Berhasil dicatat nih:'' @ [CHR 0x0A, CHR 0x0A]
     @ ''Total: '' @ format_idr (total r) @ [CHR 0x0A, CHR 0x0A]
     @ ''Kategori: '' @ ReceiptExtraction.category r @ [CHR 0x0A, CHR 0x0A]
     @ ''Tanggal: '' @ (case date_text r of None \<Rightarrow> ''None'' | Some d \<Rightarrow> d) @ [CHR 0x0A]
     @ ''Mau langsung simpan atau ada yang mau diubah?''"

definition extract_receipt_data :: "ocr_input \<Rightarrow> pyexc + OCRResult" where
  "extract_receipt_data ocr_in =
     (let lines = normalize_lines ocr_in;
          raw = join [CHR 0x0A] lines;
          is_bank = detect_bank_transaction lines
      in case extract_total lines is_bank of
           Inl e \<Rightarrow> Inl e
         | Inr (total_opt, used_fallback) \<Rightarrow>
             if is_noisy lines total_opt used_fallback then
               Inr \<lparr>raw_text = raw, receipt = None, needs_manual_total_confirmation = True,
                    reply_text = noisy_reply\<rparr>
             else
               (let found_merchant = (if is_bank then pick_bank_merchant lines else pick_merchant lines);
                    r = \<lparr>merchant = found_merchant,
                         date_text = Some (find_date raw),
                         total = (case total_opt of None \<Rightarrow> 0 | Some t \<Rightarrow> t),
                         category = (if is_bank then ''Transfer/Bank''
                                     else pick_category found_merchant lines),
                         used_fallback_total = used_fallback,
                         is_bank_transaction = is_bank\<rparr>
                in Inr \<lparr>raw_text = raw, receipt = Some r, needs_manual_total_confirmation = False,
                        reply_text = confirmation_text r\<rparr>))"
section \<open>Facts about the string functions\<close>

lemma is_digit_lower_char: "is_digit (lower_char c) = is_digit c"
  by (auto simp: lower_char_def is_digit_def)

lemma lower_char_eq_dot: "lower_char c = CHR ''.'' \<longleftrightarrow> c = CHR ''.''"
  by (auto simp: lower_char_def)

lemma lower_char_eq_comma: "lower_char c = CHR '','' \<longleftrightarrow> c = CHR '',''"
  by (auto simp: lower_char_def)

lemma filter_digit_lower: "length (filter is_digit (lower s)) = length (filter is_digit s)"
  by (induction s) (simp_all add: lower_def is_digit_lower_char)

lemma starts_with_split: "starts_with s p \<Longrightarrow> s = p @ drop (length p) s"
  unfolding starts_with_def by (metis append_take_drop_id)

lemma filter_replace_del:
  "\<forall>c \<in> set old. \<not> Q c \<Longrightarrow> filter Q (replace old [] s) = filter Q s"
proof (induction old "[] :: string" s rule: replace.induct)
  case (1 old)
  then show ?case by simp
next
  case (2 old c cs)
  show ?case
  proof (cases "old \<noteq> [] \<and> starts_with (c # cs) old")
    case True
    then have eq: "c # cs = old @ drop (length old) (c # cs)"
      using starts_with_split by blast
    have "filter Q (c # cs) = filter Q (drop (length old) (c # cs))"
      by (subst eq) (use 2(3) in simp)
    with True 2 show ?thesis by simp
  next
    case False
    with 2 show ?thesis by auto
  qed
qed

lemma set_replace_del: "set (replace old [] s) \<subseteq> set s"
proof (induction old "[] :: string" s rule: replace.induct)
  case (1 old)
  then show ?case by simp
next
  case (2 old c cs)
  show ?case
  proof (cases "old \<noteq> [] \<and> starts_with (c # cs) old")
    case True
    have "set (drop (length old) (c # cs)) \<subseteq> set (c # cs)" by (rule set_drop_subset)
    with True 2 show ?thesis by auto
  next
    case False
    with 2 show ?thesis by auto
  qed
qed

lemma filter_strip_with:
  "\<forall>c. P c \<longrightarrow> \<not> Q c \<Longrightarrow> filter Q (strip_with P s) = filter Q s"
proof -
  assume a: "\<forall>c. P c \<longrightarrow> \<not> Q c"
  have dw: "filter Q (dropWhile P xs) = filter Q xs" for xs
    using a by (induction xs) auto
  show ?thesis
    unfolding strip_with_def by (simp add: rev_filter [symmetric] dw)
qed

lemma set_strip_with: "set (strip_with P s) \<subseteq> set s"
  unfolding strip_with_def by (auto dest!: set_dropWhileD)

lemma contains_iff: "contains s p \<longleftrightarrow> (\<exists>xs ys. s = xs @ p @ ys)"
proof (induction s)
  case Nil
  then show ?case by auto
next
  case (Cons c cs)
  show ?case
  proof
    assume "contains (c # cs) p"
    then consider "starts_with (c # cs) p" | "contains cs p" by auto
    then show "\<exists>xs ys. c # cs = xs @ p @ ys"
    proof cases
      case 1
      then have "c # cs = [] @ p @ drop (length p) (c # cs)"
        using starts_with_split by simp
      then show ?thesis by blast
    next
      case 2
      then obtain xs ys where "cs = xs @ p @ ys" using Cons by blast
      then have "c # cs = (c # xs) @ p @ ys" by simp
      then show ?thesis by blast
    qed
  next
    assume "\<exists>xs ys. c # cs = xs @ p @ ys"
    then obtain xs ys where e: "c # cs = xs @ p @ ys" by blast
    show "contains (c # cs) p"
    proof (cases xs)
      case Nil
      with e have "starts_with (c # cs) p" by (simp add: starts_with_def)
      then show ?thesis by simp
    next
      case (Cons x xs')
      with e have "cs = xs' @ p @ ys" by simp
      then have "contains cs p" using Cons.IH by blast
      then show ?thesis by simp
    qed
  qed
qed

lemma strip_with_infix: "\<exists>a b. s = a @ strip_with P s @ b"
proof -
  let ?d = "dropWhile P s"
  have 1: "s = takeWhile P s @ ?d" by simp
  have 2: "?d = rev (dropWhile P (rev ?d)) @ rev (takeWhile P (rev ?d))"
    by (metis rev_append rev_rev_ident takeWhile_dropWhile_id)
  have "s = takeWhile P s @ strip_with P s @ rev (takeWhile P (rev ?d))"
    unfolding strip_with_def using 1 2 by metis
  then show ?thesis by blast
qed

lemma contains_strip_with: "contains (strip_with P s) p \<Longrightarrow> contains s p"
proof -
  assume "contains (strip_with P s) p"
  then obtain xs ys where e: "strip_with P s = xs @ p @ ys" using contains_iff by blast
  obtain a b where "s = a @ strip_with P s @ b" using strip_with_infix by blast
  with e have "s = (a @ xs) @ p @ (ys @ b)" by simp
  then show ?thesis using contains_iff by blast
qed

lemma is_space_not_digit: "is_space c \<Longrightarrow> \<not> is_digit c"
  by (auto simp: is_space_def is_digit_def)

lemma filter_digit_strip: "filter is_digit (strip s) = filter is_digit s"
  unfolding strip_def by (rule filter_strip_with) (simp add: is_space_not_digit)

lemma dot_in_lower:
  assumes "CHR ''.'' \<in> set (lower s)"
  shows "CHR ''.'' \<in> set s"
proof -
  from assms have "CHR ''.'' \<in> lower_char ` set s" by (simp add: lower_def)
  then obtain c where c: "c \<in> set s" and "CHR ''.'' = lower_char c" by (rule imageE)
  then have "c = CHR ''.''" using lower_char_eq_dot [of c] by simp
  with c show ?thesis by simp
qed

lemma comma_in_lower:
  assumes "CHR '','' \<in> set (lower s)"
  shows "CHR '','' \<in> set s"
proof -
  from assms have "CHR '','' \<in> lower_char ` set s" by (simp add: lower_def)
  then obtain c where c: "c \<in> set s" and "CHR '','' = lower_char c" by (rule imageE)
  then have "c = CHR '',''" using lower_char_eq_comma [of c] by simp
  with c show ?thesis by simp
qed

lemma clean_token_digits:
  "length (filter is_digit (clean_token token)) = length (filter is_digit token)"
proof -
  have "filter is_digit (clean_token token) = filter is_digit (lower token)"
    unfolding clean_token_def
    by (simp add: filter_replace_del filter_digit_strip is_digit_def)
  then show ?thesis by (simp add: filter_digit_lower)
qed

lemma clean_token_set: "set (clean_token token) \<subseteq> set (lower token)"
  unfolding clean_token_def strip_def
  using set_replace_del set_strip_with by (meson subset_trans)

section \<open>Facts about the amount normaliser\<close>

lemma digit_val_nonneg: "0 \<le> digit_val c"
  by (simp add: digit_val_def split: option.split)

lemma foldl_digits_nonneg: "0 \<le> acc \<Longrightarrow> 0 \<le> foldl (\<lambda>acc c. 10 * acc + digit_val c) acc ds"
proof (induction ds arbitrary: acc)
  case Nil
  then show ?case by simp
next
  case (Cons d ds)
  have "0 \<le> 10 * acc + digit_val d" using Cons.prems digit_val_nonneg [of d] by simp
  then show ?case using Cons.IH by simp
qed

lemma int_of_digits_nonneg: "0 \<le> int_of_digits ds"
  unfolding int_of_digits_def by (rule foldl_digits_nonneg) simp

lemma pow2_pos: "0 < pow2 k"
  by (simp add: pow2_def)

lemma pow10_pos: "0 < pow10 k"
  by (simp add: pow10_def)

lemma round_half_even_nonneg: "0 \<le> q \<Longrightarrow> 0 \<le> round_half_even q"
proof -
  assume "0 \<le> q"
  then have "0 \<le> \<lfloor>q\<rfloor>" by simp
  then show ?thesis by (simp add: round_half_even_def Let_def)
qed

lemma to_double_nonneg: "0 \<le> q \<Longrightarrow> nonneg_float (to_double q)"
proof -
  assume q: "0 \<le> q"
  show ?thesis
  proof (cases "q = 0")
    case True
    then show ?thesis by (simp add: to_double_def nonneg_float_def)
  next
    case False
    with q have pos: "0 < q" by simp
    define e where "e = max (ilog2 \<bar>q\<bar> - 52) (- 1074)"
    define m where "m = round_half_even (\<bar>q\<bar> / pow2 e)"
    have "0 \<le> \<bar>q\<bar> / pow2 e" using pow2_pos [of e] by simp
    then have "0 \<le> m" unfolding m_def by (rule round_half_even_nonneg)
    then have v: "0 \<le> of_int m * pow2 e" using pow2_pos [of e] by simp
    show ?thesis
      using pos v False unfolding to_double_def nonneg_float_def e_def m_def Let_def
      by simp
  qed
qed

lemma fmul_nonneg: "nonneg_float x \<Longrightarrow> 0 < c \<Longrightarrow> nonneg_float (fmul x c)"
  by (cases x) (simp_all add: fmul_def nonneg_float_def to_double_nonneg [unfolded nonneg_float_def])

lemma py_round_nonneg: "nonneg_float x \<Longrightarrow> py_round x = Inr v \<Longrightarrow> 0 \<le> v"
  by (cases x) (auto simp: py_round_def nonneg_float_def round_half_even_nonneg)

lemma parse_decimal_nonneg: "parse_decimal s = Some q \<Longrightarrow> 0 \<le> q"
  unfolding parse_decimal_def Let_def
  using int_of_digits_nonneg pow10_pos
  by (auto split: prod.splits if_splits option.splits simp: less_imp_le)

lemma parse_unsigned_float_nonneg: "parse_unsigned_float s = Some x \<Longrightarrow> nonneg_float x"
  unfolding parse_unsigned_float_def
  by (auto split: if_splits simp: nonneg_float_def dest!: parse_decimal_nonneg to_double_nonneg)


lemma float_of_string_nonneg:
  assumes "float_of_string s = Some x" and "CHR ''-'' \<notin> set s"
  shows "nonneg_float x"
proof -
  define t where "t = strip_with is_float_space (filter (\<lambda>c. c \<noteq> CHR ''_'') s)"
  have "set t \<subseteq> set s" unfolding t_def using set_strip_with by fastforce
  with assms(2) have nm: "CHR ''-'' \<notin> set t" by blast
  from assms(1) have r: "(case t of [] \<Rightarrow> None
           | c # cs \<Rightarrow> if c = CHR ''-'' then map_option fneg (parse_unsigned_float cs)
                       else if c = CHR ''+'' then parse_unsigned_float cs
                       else parse_unsigned_float t) = Some x"
    unfolding float_of_string_def t_def Let_def by (simp split: if_splits)
  show ?thesis
  proof (cases t)
    case Nil
    with r show ?thesis by simp
  next
    case (Cons c cs)
    with nm have "c \<noteq> CHR ''-''" by auto
    with r Cons have "parse_unsigned_float cs = Some x \<or> parse_unsigned_float t = Some x"
      by (simp split: if_splits)
    then show ?thesis using parse_unsigned_float_nonneg by blast
  qed
qed

lemma set_replace: "set (replace old new s) \<subseteq> set s \<union> set new"
proof (induction old new s rule: replace.induct)
  case (1 old new)
  then show ?case by simp
next
  case (2 old new c cs)
  show ?case
  proof (cases "old \<noteq> [] \<and> starts_with (c # cs) old")
    case True
    have "set (drop (length old) (c # cs)) \<subseteq> set (c # cs)" by (rule set_drop_subset)
    with True 2 show ?thesis by auto
  next
    case False
    with 2 show ?thesis by auto
  qed
qed

lemma lower_char_eq_minus: "lower_char c = CHR ''-'' \<longleftrightarrow> c = CHR ''-''"
  by (auto simp: lower_char_def)

lemma minus_in_lower:
  assumes "CHR ''-'' \<in> set (lower s)"
  shows "CHR ''-'' \<in> set s"
proof -
  from assms have "CHR ''-'' \<in> lower_char ` set s" by (simp add: lower_def)
  then obtain c where c: "c \<in> set s" and "CHR ''-'' = lower_char c" by (rule imageE)
  then have "c = CHR ''-''" using lower_char_eq_minus [of c] by simp
  with c show ?thesis by simp
qed

lemma token_lower_no_minus:
  assumes "CHR ''-'' \<notin> set token"
  shows "CHR ''-'' \<notin> set (replace '' '' [] (replace ''idr'' [] (replace ''rp'' [] (lower (strip token)))))"
proof -
  have "CHR ''-'' \<notin> set (strip token)"
    using assms set_strip_with unfolding strip_def by fastforce
  then have "CHR ''-'' \<notin> set (lower (strip token))" using minus_in_lower by blast
  then show ?thesis using set_replace_del by blast
qed


section \<open>Facts about the total extractor\<close>

lemma amounts_of_tokens_range:
  "amounts_of_tokens tokens = Inr xs \<Longrightarrow> \<forall>v \<in> set xs. 100 \<le> v \<and> v \<le> 2000000000"
proof (induction tokens arbitrary: xs)
  case Nil
  then show ?case by simp
next
  case (Cons token tokens)
  show ?case
  proof (cases "is_plausible_money_token token")
    case False
    with Cons show ?thesis by simp
  next
    case True
    with Cons.prems obtain parsed amounts where
      a: "amounts_of_tokens tokens = Inr amounts" and
      x: "xs = (case parsed of None \<Rightarrow> amounts
                | Some v \<Rightarrow> if v \<noteq> 0 \<and> 100 \<le> v \<and> v \<le> 2000000000 then v # amounts else amounts)"
      by (auto split: sum.splits)
    from Cons.IH [OF a] have "\<forall>v \<in> set amounts. 100 \<le> v \<and> v \<le> 2000000000" .
    with x show ?thesis by (auto split: option.splits if_splits)
  qed
qed

lemma extract_amounts_range:
  "extract_amounts text = Inr xs \<Longrightarrow> \<forall>v \<in> set xs. 100 \<le> v \<and> v \<le> 2000000000"
  unfolding extract_amounts_def by (rule amounts_of_tokens_range)

lemma inline_amounts_range:
  "inline_amounts kws line = Inr xs \<Longrightarrow> \<forall>v \<in> set xs. 100 \<le> v \<and> v \<le> 2000000000"
proof (induction kws arbitrary: xs)
  case Nil
  then show ?case by simp
next
  case (Cons kw kws)
  show ?case
  proof (cases "contains (lower line) kw")
    case False
    with Cons show ?thesis by simp
  next
    case True
    with Cons.prems obtain seg amounts others where
      e: "extract_amounts seg = Inr amounts" and
      i: "inline_amounts kws line = Inr others" and
      x: "xs = (case amounts of [] \<Rightarrow> others | a # _ \<Rightarrow> a # others)"
      by (auto simp: Let_def split: sum.splits)
    from extract_amounts_range [OF e] Cons.IH [OF i] x show ?thesis
      by (auto split: list.splits)
  qed
qed

lemma line_keyword_amounts_range:
  "line_keyword_amounts kws line rest = Inr xs \<Longrightarrow> \<forall>v \<in> set xs. 100 \<le> v \<and> v \<le> 2000000000"
  unfolding line_keyword_amounts_def Let_def
  by (auto split: if_splits sum.splits list.splits
           dest!: inline_amounts_range extract_amounts_range)

lemma keyword_amounts_range:
  "keyword_amounts kws lines = Inr xs \<Longrightarrow> \<forall>v \<in> set xs. 100 \<le> v \<and> v \<le> 2000000000"
proof (induction lines arbitrary: xs)
  case Nil
  then show ?case by simp
next
  case (Cons line rest)
  from Cons.prems obtain here later where
    h: "line_keyword_amounts kws line rest = Inr here" and
    l: "keyword_amounts kws rest = Inr later" and x: "xs = here @ later"
    by (auto split: sum.splits)
  from line_keyword_amounts_range [OF h] Cons.IH [OF l] x show ?case by auto
qed

lemma fallback_amounts_range:
  "fallback_amounts lines = Inr xs \<Longrightarrow> \<forall>v \<in> set xs. 1000 \<le> v \<and> v \<le> 2000000000"
proof (induction lines arbitrary: xs)
  case Nil
  then show ?case by simp
next
  case (Cons line rest)
  show ?case
  proof (cases "contains_any (lower line) IGNORE_TOTAL_HINTS")
    case True
    with Cons show ?thesis by simp
  next
    case False
    with Cons.prems obtain amounts later where
      e: "extract_amounts line = Inr amounts" and
      l: "fallback_amounts rest = Inr later" and
      x: "xs = filter (\<lambda>amount. 1000 \<le> amount) amounts @ later"
      by (auto split: sum.splits)
    from extract_amounts_range [OF e] Cons.IH [OF l] x show ?thesis by auto
  qed
qed

lemma median_in_set: "ks \<noteq> [] \<Longrightarrow> sort ks ! (length (sort ks) div 2) \<in> set (ks :: int list)"
proof -
  assume "ks \<noteq> []"
  then have "length (sort ks) div 2 < length (sort ks)" by (simp add: length_greater_0_conv [symmetric] del: length_greater_0_conv)
  then have "sort ks ! (length (sort ks) div 2) \<in> set (sort ks)" by (rule nth_mem)
  then show ?thesis by simp
qed

lemma extract_total_range:
  assumes "extract_total lines is_bank = Inr (Some t, fb)"
  shows "100 \<le> t \<and> t \<le> 2000000000"
proof -
  from assms obtain ks where k: "keyword_amounts (total_keywords_for is_bank) lines = Inr ks"
    unfolding extract_total_def by (auto split: sum.splits)
  show ?thesis
  proof (cases "ks = []")
    case False
    with assms k have "t = sort ks ! (length (sort ks) div 2)"
      unfolding extract_total_def by (simp add: Let_def)
    with False median_in_set have "t \<in> set ks" by blast
    with keyword_amounts_range [OF k] show ?thesis by blast
  next
    case True
    with assms k obtain xs where f: "fallback_amounts lines = Inr xs" and ne: "xs \<noteq> []"
      and t: "t = Max (set xs)"
      unfolding extract_total_def by (auto split: sum.splits if_splits)
    from ne have "Max (set xs) \<in> set xs" by (intro Max_in) simp_all
    with t fallback_amounts_range [OF f] show ?thesis by auto
  qed
qed

lemma not_noisy_total:
  "\<not> is_noisy lines total_opt fb \<Longrightarrow> \<exists>t. total_opt = Some t \<and> 1000 \<le> t"
  unfolding is_noisy_def Let_def by (auto split: if_splits option.splits)

section \<open>Facts about white space, case and the category table\<close>




lemma wsn_weaken: "wsn b s \<Longrightarrow> wsn False s"
  by (cases s) (auto split: if_splits)






















section \<open>Code points and characters agree on ASCII text\<close>







lemma of_char_space: "(of_char (CHR '' '') :: int) = 0x20"
  by simp




















section \<open>The plausibility filter rejects long bare digit strings\<close>

text \<open>
  Claim C6. A raw token that contains no currency marker (\<open>rp\<close>, \<open>idr\<close>, in any case), that
  has no magnitude suffix, that contains neither a point nor a comma, and that has eight
  digits or more is rejected by \<open>_is_plausible_money_token\<close>: the function returns
  \<open>False\<close>, so the token is never passed to \<open>parse_amount_token\<close> by
  \<open>_extract_amounts\<close>.
\<close>

theorem plausible_rejects_long_bare_digits:
  assumes "\<not> contains (lower token) ''rp''" and "\<not> contains (lower token) ''idr''"
    and "\<not> has_suffix token"
    and "CHR ''.'' \<notin> set token" and "CHR '','' \<notin> set token"
    and "8 \<le> length (filter is_digit token)"
  shows "is_plausible_money_token token = False"
proof -
  have cur: "\<not> has_currency token"
    using assms(1,2) contains_strip_with unfolding has_currency_def strip_def by blast
  have dot: "CHR ''.'' \<notin> set (clean_token token)"
    using clean_token_set [of token] assms(4) dot_in_lower by blast
  have comma: "CHR '','' \<notin> set (clean_token token)"
    using clean_token_set [of token] assms(5) comma_in_lower by blast
  have len: "8 \<le> length (filter is_digit (clean_token token))"
    using assms(6) by (simp add: clean_token_digits)
  show ?thesis
    unfolding is_plausible_money_token_def Let_def
    using cur dot comma len assms(3) by simp
qed

theorem plausible_rejects_long_bare_digits_witness:
  "\<not> contains (lower ''1234567890'') ''rp'' \<and> \<not> contains (lower ''1234567890'') ''idr''
   \<and> \<not> has_suffix ''1234567890''
   \<and> CHR ''.'' \<notin> set ''1234567890'' \<and> CHR '','' \<notin> set ''1234567890''
   \<and> 8 \<le> length (filter is_digit ''1234567890'')
   \<and> is_plausible_money_token ''1234567890'' = False"
proof -
  have h1: "\<not> contains (lower ''1234567890'') ''rp''" by code_simp
  have h2: "\<not> contains (lower ''1234567890'') ''idr''" by code_simp
  have h3: "\<not> has_suffix ''1234567890''" by code_simp
  have h4: "CHR ''.'' \<notin> set ''1234567890''" by simp
  have h5: "CHR '','' \<notin> set ''1234567890''" by simp
  have h6: "8 \<le> length (filter is_digit ''1234567890'')" by code_simp
  have c: "is_plausible_money_token ''1234567890'' = False"
    by (rule plausible_rejects_long_bare_digits [OF h1 h2 h3 h4 h5 h6])
  show ?thesis by (intro conjI h1 h2 h3 h4 h5 h6 c)
qed
section \<open>The sign of a normalised amount\<close>

text \<open>
  Claim C3 says that every value \<open>parse_amount_token\<close> returns is a non-negative
  integer. It fails on a token with a minus sign and a magnitude suffix: the part before
  the suffix goes to \<open>float()\<close>, which reads the sign, and no branch of the function
  rejects a negative result (the callers do, with \<open>amount <= 0\<close>).
\<close>

theorem parse_amount_token_negative_value:
  "parse_amount_token ''-5rb'' = Inr (Some (- 5000)) \<and> \<not> (0::int) \<le> - 5000"
proof -
  have "parse_amount_token ''-5rb'' = Inr (Some (- 5000))" by code_simp
  then show ?thesis by simp
qed


text \<open>
  Claim C3, as amended: for every token that contains no minus sign, a value returned by
  \<open>parse_amount_token\<close> is a non-negative integer.
\<close>

theorem parse_amount_token_nonneg:
  assumes "CHR ''-'' \<notin> set token" and "parse_amount_token token = Inr (Some v)"
  shows "0 \<le> v"
proof -
  define tl0 where "tl0 = replace '' '' [] (replace ''idr'' [] (replace ''rp'' [] (lower (strip token))))"
  define suffix where "suffix = find_suffix tl0"
  define tl1 where "tl1 = take (length tl0 - length suffix) tl0"
  have nm0: "CHR ''-'' \<notin> set tl0" unfolding tl0_def using assms(1) by (rule token_lower_no_minus)
  have "set tl1 \<subseteq> set tl0" unfolding tl1_def by (rule set_take_subset)
  with nm0 have nm1: "CHR ''-'' \<notin> set tl1" by blast
  have "set (replace '','' ''.'' tl1) \<subseteq> set tl1 \<union> set ''.''" by (rule set_replace)
  with nm1 have nm2: "CHR ''-'' \<notin> set (replace '','' ''.'' tl1)" by auto
  from assms(2) have r:
    "(if tl0 = [] then Inr None
      else if tl1 = [] then Inr None
      else if suffix = [] then
        (if filter is_digit tl1 = [] then Inr None
         else Inr (Some (int_of_digits (filter is_digit tl1))))
      else
        (case float_of_string (replace '','' ''.'' tl1) of
           None \<Rightarrow> Inr None
         | Some base_float \<Rightarrow>
             (case py_round
                     (if suffix \<in> {''rb'', ''ribu'', ''k''} then fmul base_float 1000
                      else if suffix \<in> {''jt'', ''juta''} then fmul base_float 1000000
                      else base_float) of
                Inl e \<Rightarrow> Inl e
              | Inr v \<Rightarrow> Inr (Some v)))) = Inr (Some v)"
    unfolding parse_amount_token_def tl0_def [symmetric] Let_def suffix_def [symmetric] tl1_def [symmetric]
    by simp
  show ?thesis
  proof (cases "suffix = []")
    case True
    with r have "v = int_of_digits (filter is_digit tl1)" by (simp split: if_splits)
    then show ?thesis using int_of_digits_nonneg by simp
  next
    case False
    with r obtain base_float where
      b: "float_of_string (replace '','' ''.'' tl1) = Some base_float" and
      p: "py_round
            (if suffix \<in> {''rb'', ''ribu'', ''k''} then fmul base_float 1000
             else if suffix \<in> {''jt'', ''juta''} then fmul base_float 1000000
             else base_float) = Inr v"
      by (auto split: if_splits option.splits sum.splits)
    have nb: "nonneg_float base_float" using b nm2 by (rule float_of_string_nonneg)
    have "nonneg_float
            (if suffix \<in> {''rb'', ''ribu'', ''k''} then fmul base_float 1000
             else if suffix \<in> {''jt'', ''juta''} then fmul base_float 1000000
             else base_float)"
      using nb fmul_nonneg by simp
    then show ?thesis using p by (rule py_round_nonneg)
  qed
qed


text \<open>The amended claim at the token \<open>25rb\<close>.\<close>

theorem parse_amount_token_nonneg_witness:
  "CHR ''-'' \<notin> set ''25rb'' \<and> parse_amount_token ''25rb'' = Inr (Some 25000) \<and> (0::int) \<le> 25000"
proof -
  have h1: "CHR ''-'' \<notin> set ''25rb''" by simp
  have h2: "parse_amount_token ''25rb'' = Inr (Some 25000)" by code_simp
  have c: "(0::int) \<le> 25000" by (rule parse_amount_token_nonneg [OF h1 h2])
  show ?thesis by (intro conjI h1 h2 c)
qed

section \<open>Exceptions that leave the amount normaliser\<close>

text \<open>
  Claim C9 says that no core entry point raises on malformed input. In
  \<open>parse_amount_token\<close> only the call of \<open>float()\<close> is inside the \<open>try\<close>; the call of
  \<open>round\<close> is after it. \<open>float()\<close> accepts \<open>inf\<close> and \<open>nan\<close>, and \<open>round\<close> raises
  OverflowError on an infinity and ValueError on a NaN: on the tokens \<open>infk\<close> and
  \<open>nank\<close> the exception leaves the function.
\<close>

theorem parse_amount_token_raises:
  "parse_amount_token ''infk'' = Inl OverflowError \<and> parse_amount_token ''nank'' = Inl ValueError"
proof -
  have 1: "parse_amount_token ''infk'' = Inl OverflowError" by code_simp
  have 2: "parse_amount_token ''nank'' = Inl ValueError" by code_simp
  show ?thesis by (intro conjI 1 2)
qed

section \<open>The expense statement \<open>beli kopi 25rb\<close>\<close>

text \<open>
  Claim C4. \<open>parse_expense_input("beli kopi 25rb")\<close> succeeds with the item \<open>Kopi\<close>, the
  amount 25000 and the category \<open>Makanan & Minuman\<close>: the filler verb \<open>beli\<close> is cut off
  the item, the item is capitalised, the token \<open>25rb\<close> is normalised to 25000, and the
  category is the one the keyword table gives for the item.
\<close>

theorem parse_expense_input_beli_kopi:
  "parse_expense_input ''beli kopi 25rb''
     = Inr (Some \<lparr>item = ''Kopi'', amount = 25000, category = ''Makanan & Minuman''\<rparr>)
   \<and> strip_stopword ''beli kopi'' = ''kopi''
   \<and> capitalize ''kopi'' = ''Kopi''
   \<and> parse_amount_token ''25rb'' = Inr (Some 25000)
   \<and> infer_category ''Kopi'' = ''Makanan & Minuman''"
proof -
  have 1: "parse_expense_input ''beli kopi 25rb''
     = Inr (Some \<lparr>item = ''Kopi'', amount = 25000, category = ''Makanan & Minuman''\<rparr>)"
    by code_simp
  have 2: "strip_stopword ''beli kopi'' = ''kopi''" by code_simp
  have 3: "capitalize ''kopi'' = ''Kopi''" by code_simp
  have 4: "parse_amount_token ''25rb'' = Inr (Some 25000)" by code_simp
  have 5: "infer_category ''Kopi'' = ''Makanan & Minuman''" by code_simp
  show ?thesis by (intro conjI 1 2 3 4 5)
qed

section \<open>The split bill of the specification\<close>

text \<open>
  Claim C5. \<open>parse_split_bill\<close> on
  \<open>split bill total 300000 untuk 3 orang service 10% pajak 10%\<close> succeeds with the subtotal
  300000 and 3 people; the service amount is \<open>round(300000 * 10 / 100) = 30000\<close>, the tax
  amount \<open>round((300000 + 30000) * 10 / 100) = 33000\<close>, the grand total 363000, and the
  share per person that \<open>_reply_split_bill\<close> computes is \<open>ceil(363000 / 3) = 121000\<close>.
\<close>

theorem parse_split_bill_example:
  "parse_split_bill ''split bill total 300000 untuk 3 orang service 10% pajak 10%''
     = Inr (Some \<lparr>subtotal = 300000, people = 3, service_amount = 30000, tax_amount = 33000\<rparr>)
   \<and> percent_of 300000 (Finite 10) = Inr 30000
   \<and> percent_of (300000 + 30000) (Finite 10) = Inr 33000
   \<and> grand_total \<lparr>subtotal = 300000, people = 3, service_amount = 30000, tax_amount = 33000\<rparr> = 363000
   \<and> per_person \<lparr>subtotal = 300000, people = 3, service_amount = 30000, tax_amount = 33000\<rparr> = Inr 121000"
proof -
  have 1: "parse_split_bill ''split bill total 300000 untuk 3 orang service 10% pajak 10%''
     = Inr (Some \<lparr>subtotal = 300000, people = 3, service_amount = 30000, tax_amount = 33000\<rparr>)"
    by code_simp
  have 2: "percent_of 300000 (Finite 10) = Inr 30000" by code_simp
  have 3: "percent_of (300000 + 30000) (Finite 10) = Inr 33000" by code_simp
  have 4: "grand_total \<lparr>subtotal = 300000, people = 3, service_amount = 30000, tax_amount = 33000\<rparr> = 363000"
    by (simp add: grand_total_def)
  have 5: "per_person \<lparr>subtotal = 300000, people = 3, service_amount = 30000, tax_amount = 33000\<rparr> = Inr 121000"
    by code_simp
  show ?thesis by (intro conjI 1 2 3 4 5)
qed


section \<open>The total is the lower median of the keyword-anchored candidates\<close>

text \<open>
  Claim C1. Whenever the first loop of \<open>_extract_total\<close> collects at least one
  keyword-anchored amount, the function returns the element at index \<open>count // 2\<close> of the
  sorted candidates, with \<open>used_fallback_total\<close> false; the value is one of the candidates,
  not an average.
\<close>

theorem extract_total_lower_median:
  assumes "keyword_amounts (total_keywords_for is_bank) lines = Inr ks" and "ks \<noteq> []"
  shows "extract_total lines is_bank = Inr (Some (sort ks ! (length ks div 2)), False)
         \<and> sort ks ! (length ks div 2) \<in> set ks"
proof -
  have 1: "extract_total lines is_bank = Inr (Some (sort ks ! (length ks div 2)), False)"
    using assms unfolding extract_total_def by (simp add: Let_def)
  have 2: "sort ks ! (length ks div 2) \<in> set ks"
    using median_in_set [OF assms(2)] by simp
  show ?thesis by (intro conjI 1 2)
qed

text \<open>Three lines with the candidates 48000, 50000 and 1000000: the total is 50000.\<close>

theorem extract_total_lower_median_witness:
  "keyword_amounts (total_keywords_for False) [''TOTAL 48000'', ''TOTAL 50000'', ''TOTAL 1000000'']
     = Inr [48000, 50000, 1000000]
   \<and> [48000, 50000, 1000000 :: int] \<noteq> []
   \<and> extract_total [''TOTAL 48000'', ''TOTAL 50000'', ''TOTAL 1000000''] False = Inr (Some 50000, False)"
proof -
  have h1: "keyword_amounts (total_keywords_for False) [''TOTAL 48000'', ''TOTAL 50000'', ''TOTAL 1000000'']
     = Inr [48000, 50000, 1000000]" by code_simp
  have h2: "[48000, 50000, 1000000 :: int] \<noteq> []" by simp
  have m: "sort [48000, 50000, 1000000 :: int] ! (length [48000, 50000, 1000000 :: int] div 2) = 50000"
    by simp
  have c: "extract_total [''TOTAL 48000'', ''TOTAL 50000'', ''TOTAL 1000000''] False = Inr (Some 50000, False)"
    using extract_total_lower_median [OF h1 h2] unfolding m by (rule conjunct1)
  show ?thesis by (intro conjI h1 h2 c)
qed

section \<open>The receipt is absent exactly when manual confirmation is requested\<close>

text \<open>
  Claim C7. Every result that \<open>extract_receipt_data\<close> returns has \<open>receipt\<close> equal to
  \<open>None\<close> if and only if \<open>needs_manual_total_confirmation\<close> is true: either there is a
  receipt, with its merchant, date, total and category filled in together and no manual
  confirmation, or there is none and manual confirmation is requested.
\<close>

theorem receipt_null_iff_manual:
  assumes "extract_receipt_data ocr_in = Inr res"
  shows "(receipt res = None \<longleftrightarrow> needs_manual_total_confirmation res)
         \<and> ((\<exists>r. receipt res = Some r \<and> date_text r \<noteq> None \<and> \<not> needs_manual_total_confirmation res)
              \<or> (receipt res = None \<and> needs_manual_total_confirmation res))"
  using assms unfolding extract_receipt_data_def Let_def
  by (auto split: sum.splits prod.splits if_splits)

text \<open>The claim at a two-line receipt.\<close>

theorem receipt_null_iff_manual_witness:
  "extract_receipt_data (OcrLines [''Toko Maju'', ''TOTAL 50000''])
     = Inr \<lparr>raw_text = ''Toko Maju'' @ [CHR 0x0A] @ ''TOTAL 50000'',
        receipt = Some \<lparr>merchant = ''Toko Maju'', date_text = Some ''-'', total = 50000,
          category = ''Belanja Lainnya'', used_fallback_total = False, is_bank_transaction = False\<rparr>,
        needs_manual_total_confirmation = False,
        reply_text = confirmation_text
         \<lparr>merchant = ''Toko Maju'', date_text = Some ''-'', total = 50000,
          category = ''Belanja Lainnya'', used_fallback_total = False, is_bank_transaction = False\<rparr>\<rparr>
   \<and> (receipt \<lparr>raw_text = ''Toko Maju'' @ [CHR 0x0A] @ ''TOTAL 50000'',
        receipt = Some \<lparr>merchant = ''Toko Maju'', date_text = Some ''-'', total = 50000,
          category = ''Belanja Lainnya'', used_fallback_total = False, is_bank_transaction = False\<rparr>,
        needs_manual_total_confirmation = False,
        reply_text = confirmation_text
         \<lparr>merchant = ''Toko Maju'', date_text = Some ''-'', total = 50000,
          category = ''Belanja Lainnya'', used_fallback_total = False, is_bank_transaction = False\<rparr>\<rparr> = None
        \<longleftrightarrow> needs_manual_total_confirmation \<lparr>raw_text = ''Toko Maju'' @ [CHR 0x0A] @ ''TOTAL 50000'',
        receipt = Some \<lparr>merchant = ''Toko Maju'', date_text = Some ''-'', total = 50000,
          category = ''Belanja Lainnya'', used_fallback_total = False, is_bank_transaction = False\<rparr>,
        needs_manual_total_confirmation = False,
        reply_text = confirmation_text
         \<lparr>merchant = ''Toko Maju'', date_text = Some ''-'', total = 50000,
          category = ''Belanja Lainnya'', used_fallback_total = False, is_bank_transaction = False\<rparr>\<rparr>)"
proof -
  have h: "extract_receipt_data (OcrLines [''Toko Maju'', ''TOTAL 50000''])
     = Inr \<lparr>raw_text = ''Toko Maju'' @ [CHR 0x0A] @ ''TOTAL 50000'',
        receipt = Some \<lparr>merchant = ''Toko Maju'', date_text = Some ''-'', total = 50000,
          category = ''Belanja Lainnya'', used_fallback_total = False, is_bank_transaction = False\<rparr>,
        needs_manual_total_confirmation = False,
        reply_text = confirmation_text
         \<lparr>merchant = ''Toko Maju'', date_text = Some ''-'', total = 50000,
          category = ''Belanja Lainnya'', used_fallback_total = False, is_bank_transaction = False\<rparr>\<rparr>"
    by code_simp
  have c: "receipt \<lparr>raw_text = ''Toko Maju'' @ [CHR 0x0A] @ ''TOTAL 50000'',
        receipt = Some \<lparr>merchant = ''Toko Maju'', date_text = Some ''-'', total = 50000,
          category = ''Belanja Lainnya'', used_fallback_total = False, is_bank_transaction = False\<rparr>,
        needs_manual_total_confirmation = False,
        reply_text = confirmation_text
         \<lparr>merchant = ''Toko Maju'', date_text = Some ''-'', total = 50000,
          category = ''Belanja Lainnya'', used_fallback_total = False, is_bank_transaction = False\<rparr>\<rparr> = None
        \<longleftrightarrow> needs_manual_total_confirmation \<lparr>raw_text = ''Toko Maju'' @ [CHR 0x0A] @ ''TOTAL 50000'',
        receipt = Some \<lparr>merchant = ''Toko Maju'', date_text = Some ''-'', total = 50000,
          category = ''Belanja Lainnya'', used_fallback_total = False, is_bank_transaction = False\<rparr>,
        needs_manual_total_confirmation = False,
        reply_text = confirmation_text
         \<lparr>merchant = ''Toko Maju'', date_text = Some ''-'', total = 50000,
          category = ''Belanja Lainnya'', used_fallback_total = False, is_bank_transaction = False\<rparr>\<rparr>"
    using receipt_null_iff_manual [OF h] by (rule conjunct1)
  show ?thesis by (intro conjI h c)
qed

section \<open>Short, low-density text and the noise gate\<close>

text \<open>
  Claim C2 says that an input with at most two normalised lines and an alphanumeric
  density below 0.45 always gets a result without a receipt and with manual confirmation
  requested. \<open>_is_noisy\<close> applies the two tests only to a fallback total
  (\<open>used_fallback_total and (very_short or weak_text)\<close>): the single line
  \<open>TOTAL 50000 ###############\<close> has the density 10 / 25, its total 50000 is anchored
  by the keyword \<open>total\<close>, and the receipt is returned.
\<close>

theorem short_weak_keyword_total_accepted:
  "length (normalize_lines (OcrLines [''TOTAL 50000 ###############''])) \<le> 2
   \<and> float_less (alnum_ratio (join '' '' (normalize_lines (OcrLines [''TOTAL 50000 ###############'']))))
         (to_double (45 / 100))
   \<and> map_sum id needs_manual_total_confirmation (extract_receipt_data (OcrLines [''TOTAL 50000 ###############''])) = Inr False
   \<and> map_sum id (map_option total \<circ> receipt) (extract_receipt_data (OcrLines [''TOTAL 50000 ###############''])) = Inr (Some 50000)"
proof -
  have 1: "length (normalize_lines (OcrLines [''TOTAL 50000 ###############''])) \<le> 2" by code_simp
  have 2: "float_less (alnum_ratio (join '' '' (normalize_lines (OcrLines [''TOTAL 50000 ###############'']))))
         (to_double (45 / 100))" by code_simp
  have 3: "map_sum id needs_manual_total_confirmation (extract_receipt_data (OcrLines [''TOTAL 50000 ###############''])) = Inr False"
    by code_simp
  have 4: "map_sum id (map_option total \<circ> receipt) (extract_receipt_data (OcrLines [''TOTAL 50000 ###############''])) = Inr (Some 50000)"
    by code_simp
  show ?thesis by (intro conjI 1 2 3 4)
qed

text \<open>
  Claim C2, as amended: for every input whose normalised line count is at most 2, whose
  alphanumeric density is below 0.45 and on which the total extractor collects no
  keyword-anchored candidate amount, every result that \<open>extract_receipt_data\<close> returns
  has \<open>needs_manual_total_confirmation\<close> true and no receipt, whatever numbers the text
  contains.
\<close>

theorem short_weak_fallback_needs_manual:
  assumes "length (normalize_lines ocr_in) \<le> 2"
    and "float_less (alnum_ratio (join '' '' (normalize_lines ocr_in))) (to_double (45 / 100))"
    and "keyword_amounts (total_keywords_for (detect_bank_transaction (normalize_lines ocr_in)))
           (normalize_lines ocr_in) = Inr []"
    and "extract_receipt_data ocr_in = Inr res"
  shows "needs_manual_total_confirmation res \<and> receipt res = None"
proof -
  define lines where "lines = normalize_lines ocr_in"
  define is_bank where "is_bank = detect_bank_transaction lines"
  from assms(4) obtain total_opt fb where
    t: "extract_total lines is_bank = Inr (total_opt, fb)"
    unfolding extract_receipt_data_def Let_def lines_def is_bank_def
    by (auto split: sum.splits prod.splits)
  from t assms(3) have "total_opt = None \<or> fb"
    unfolding extract_total_def lines_def is_bank_def
    by (auto split: sum.splits if_splits)
  with assms(1) have "is_noisy lines total_opt fb"
    unfolding is_noisy_def Let_def lines_def by auto
  with t assms(4) show ?thesis
    unfolding extract_receipt_data_def Let_def lines_def is_bank_def
    by (auto split: sum.splits prod.splits)
qed

text \<open>The amended claim at the one-line text \<open>50000 ###############\<close>, whose number is
  not anchored by a keyword.\<close>

theorem short_weak_fallback_needs_manual_witness:
  "length (normalize_lines (OcrText ''50000 ###############'')) \<le> 2
   \<and> float_less (alnum_ratio (join '' '' (normalize_lines (OcrText ''50000 ###############''))))
         (to_double (45 / 100))
   \<and> keyword_amounts (total_keywords_for (detect_bank_transaction (normalize_lines (OcrText ''50000 ###############''))))
         (normalize_lines (OcrText ''50000 ###############'')) = Inr []
   \<and> extract_receipt_data (OcrText ''50000 ###############'')
       = Inr \<lparr>raw_text = ''50000 ###############'', receipt = None,
        needs_manual_total_confirmation = True, reply_text = noisy_reply\<rparr>
   \<and> needs_manual_total_confirmation \<lparr>raw_text = ''50000 ###############'', receipt = None,
        needs_manual_total_confirmation = True, reply_text = noisy_reply\<rparr>
   \<and> receipt \<lparr>raw_text = ''50000 ###############'', receipt = None,
        needs_manual_total_confirmation = True, reply_text = noisy_reply\<rparr> = None"
proof -
  have h1: "length (normalize_lines (OcrText ''50000 ###############'')) \<le> 2" by code_simp
  have h2: "float_less (alnum_ratio (join '' '' (normalize_lines (OcrText ''50000 ###############''))))
         (to_double (45 / 100))" by code_simp
  have h3: "keyword_amounts (total_keywords_for (detect_bank_transaction (normalize_lines (OcrText ''50000 ###############''))))
         (normalize_lines (OcrText ''50000 ###############'')) = Inr []" by code_simp
  have h4: "extract_receipt_data (OcrText ''50000 ###############'')
       = Inr \<lparr>raw_text = ''50000 ###############'', receipt = None,
        needs_manual_total_confirmation = True, reply_text = noisy_reply\<rparr>" by code_simp
  note c = short_weak_fallback_needs_manual [OF h1 h2 h3 h4]
  show ?thesis by (intro conjI h1 h2 h3 h4 c [THEN conjunct1] c [THEN conjunct2])
qed

section \<open>The bounds of a receipt total\<close>

text \<open>
  Claim C10. \<open>_extract_amounts\<close> keeps a parsed amount only when it lies between 100 and
  2,000,000,000, so every candidate of the total extractor, keyword-anchored or fallback,
  lies in that range; \<open>_is_noisy\<close> then rejects a total below 1000. Hence the total of
  every receipt that \<open>extract_receipt_data\<close> returns lies between 1000 and 2,000,000,000.
\<close>

theorem receipt_total_bounds:
  "(extract_amounts text = Inr xs \<longrightarrow> (\<forall>v \<in> set xs. 100 \<le> v \<and> v \<le> 2000000000))
   \<and> (extract_receipt_data ocr_in = Inr res \<longrightarrow> receipt res = Some r
        \<longrightarrow> 1000 \<le> total r \<and> total r \<le> 2000000000)"
proof (intro conjI impI)
  assume "extract_amounts text = Inr xs"
  then show "\<forall>v \<in> set xs. 100 \<le> v \<and> v \<le> 2000000000" by (rule extract_amounts_range)
next
  assume a: "extract_receipt_data ocr_in = Inr res" and b: "receipt res = Some r"
  define lines where "lines = normalize_lines ocr_in"
  define is_bank where "is_bank = detect_bank_transaction lines"
  from a obtain total_opt fb where
    t: "extract_total lines is_bank = Inr (total_opt, fb)"
    unfolding extract_receipt_data_def Let_def lines_def is_bank_def
    by (auto split: sum.splits prod.splits)
  from a b t have nn: "\<not> is_noisy lines total_opt fb"
    unfolding extract_receipt_data_def Let_def lines_def is_bank_def
    by (auto split: if_splits)
  then obtain v where v: "total_opt = Some v" and lo: "1000 \<le> v"
    using not_noisy_total by blast
  from a b t nn v have tr: "total r = v"
    unfolding extract_receipt_data_def Let_def lines_def is_bank_def by auto
  from t v have "v \<le> 2000000000" using extract_total_range by blast
  with lo tr show "1000 \<le> total r" and "total r \<le> 2000000000" by simp_all
qed

text \<open>The claim at the text \<open>50000\<close> and at a two-line receipt.\<close>

theorem receipt_total_bounds_witness:
  "extract_amounts '' 50000'' = Inr [50000]
   \<and> 100 \<le> (50000 :: int) \<and> (50000 :: int) \<le> 2000000000
   \<and> extract_receipt_data (OcrLines [''Toko Maju'', ''TOTAL 50000''])
       = Inr \<lparr>raw_text = ''Toko Maju'' @ [CHR 0x0A] @ ''TOTAL 50000'',
        receipt = Some \<lparr>merchant = ''Toko Maju'', date_text = Some ''-'', total = 50000,
          category = ''Belanja Lainnya'', used_fallback_total = False, is_bank_transaction = False\<rparr>,
        needs_manual_total_confirmation = False,
        reply_text = confirmation_text
         \<lparr>merchant = ''Toko Maju'', date_text = Some ''-'', total = 50000,
          category = ''Belanja Lainnya'', used_fallback_total = False, is_bank_transaction = False\<rparr>\<rparr>
   \<and> receipt \<lparr>raw_text = ''Toko Maju'' @ [CHR 0x0A] @ ''TOTAL 50000'',
        receipt = Some \<lparr>merchant = ''Toko Maju'', date_text = Some ''-'', total = 50000,
          category = ''Belanja Lainnya'', used_fallback_total = False, is_bank_transaction = False\<rparr>,
        needs_manual_total_confirmation = False,
        reply_text = confirmation_text
         \<lparr>merchant = ''Toko Maju'', date_text = Some ''-'', total = 50000,
          category = ''Belanja Lainnya'', used_fallback_total = False, is_bank_transaction = False\<rparr>\<rparr>
       = Some \<lparr>merchant = ''Toko Maju'', date_text = Some ''-'', total = 50000,
          category = ''Belanja Lainnya'', used_fallback_total = False, is_bank_transaction = False\<rparr>
   \<and> 1000 \<le> total \<lparr>merchant = ''Toko Maju'', date_text = Some ''-'', total = 50000,
          category = ''Belanja Lainnya'', used_fallback_total = False, is_bank_transaction = False\<rparr>
   \<and> total \<lparr>merchant = ''Toko Maju'', date_text = Some ''-'', total = 50000,
          category = ''Belanja Lainnya'', used_fallback_total = False, is_bank_transaction = False\<rparr> \<le> 2000000000"
proof -
  have h1: "extract_amounts '' 50000'' = Inr [50000]" by code_simp
  have h2: "extract_receipt_data (OcrLines [''Toko Maju'', ''TOTAL 50000''])
       = Inr \<lparr>raw_text = ''Toko Maju'' @ [CHR 0x0A] @ ''TOTAL 50000'',
        receipt = Some \<lparr>merchant = ''Toko Maju'', date_text = Some ''-'', total = 50000,
          category = ''Belanja Lainnya'', used_fallback_total = False, is_bank_transaction = False\<rparr>,
        needs_manual_total_confirmation = False,
        reply_text = confirmation_text
         \<lparr>merchant = ''Toko Maju'', date_text = Some ''-'', total = 50000,
          category = ''Belanja Lainnya'', used_fallback_total = False, is_bank_transaction = False\<rparr>\<rparr>" by code_simp
  have h3: "receipt \<lparr>raw_text = ''Toko Maju'' @ [CHR 0x0A] @ ''TOTAL 50000'',
        receipt = Some \<lparr>merchant = ''Toko Maju'', date_text = Some ''-'', total = 50000,
          category = ''Belanja Lainnya'', used_fallback_total = False, is_bank_transaction = False\<rparr>,
        needs_manual_total_confirmation = False,
        reply_text = confirmation_text
         \<lparr>merchant = ''Toko Maju'', date_text = Some ''-'', total = 50000,
          category = ''Belanja Lainnya'', used_fallback_total = False, is_bank_transaction = False\<rparr>\<rparr>
       = Some \<lparr>merchant = ''Toko Maju'', date_text = Some ''-'', total = 50000,
          category = ''Belanja Lainnya'', used_fallback_total = False, is_bank_transaction = False\<rparr>" by simp
  note c = receipt_total_bounds [of "'' 50000''" "[50000]" "OcrLines [''Toko Maju'', ''TOTAL 50000'']"
      "\<lparr>raw_text = ''Toko Maju'' @ [CHR 0x0A] @ ''TOTAL 50000'',         receipt = Some \<lparr>merchant = ''Toko Maju'', date_text = Some ''-'', total = 50000,           category = ''Belanja Lainnya'', used_fallback_total = False, is_bank_transaction = False\<rparr>,         needs_manual_total_confirmation = False,         reply_text = confirmation_text          \<lparr>merchant = ''Toko Maju'', date_text = Some ''-'', total = 50000,           category = ''Belanja Lainnya'', used_fallback_total = False, is_bank_transaction = False\<rparr>\<rparr>"
      "\<lparr>merchant = ''Toko Maju'', date_text = Some ''-'', total = 50000,           category = ''Belanja Lainnya'', used_fallback_total = False, is_bank_transaction = False\<rparr>"]
  have c1: "\<forall>v \<in> set [50000 :: int]. 100 \<le> v \<and> v \<le> 2000000000"
    using c [THEN conjunct1] h1 by (rule mp)
  have c2: "1000 \<le> total \<lparr>merchant = ''Toko Maju'', date_text = Some ''-'', total = 50000,
          category = ''Belanja Lainnya'', used_fallback_total = False, is_bank_transaction = False\<rparr>
      \<and> total \<lparr>merchant = ''Toko Maju'', date_text = Some ''-'', total = 50000,
          category = ''Belanja Lainnya'', used_fallback_total = False, is_bank_transaction = False\<rparr> \<le> 2000000000"
    using c [THEN conjunct2] h2 h3 by blast
  have c1a: "100 \<le> (50000 :: int)" and c1b: "(50000 :: int) \<le> 2000000000"
    using c1 by simp_all
  show ?thesis by (intro conjI h1 c1a c1b h2 h3 c2 [THEN conjunct1] c2 [THEN conjunct2])
qed

section \<open>Normalising a category twice\<close>




end
